theory Spec2Isabelle
  imports Main "HOL-Library.Sublist"
begin

section \<open>JavaScript values\<close>

text \<open>
  The choreography is whatever \<^verbatim>\<open>response.json()\<close> returns, and the handlers read it
  with plain property accesses, truthiness tests and strict equality. The values are
  therefore modelled untyped, as JavaScript has them. \<open>JObj\<close> holds the own properties of
  an object in the order \<^verbatim>\<open>Object.entries\<close> enumerates them. Numbers are the integers
  (the step counts and epoch values of a choreography); \<^verbatim>\<open>NaN\<close> only arises as the result
  of \<^verbatim>\<open>parseInt\<close> and is modelled there, as \<open>None\<close>.
\<close>

datatype jsval =
    JUndefined
  | JNull
  | JBool bool
  | JNum int
  | JStr string
  | JArr "jsval list"
  | JObj "(string \<times> jsval) list"

text \<open>The date \<^verbatim>\<open>new Date(v)\<close> builds from \<open>v\<close>, when it builds one. The date is kept
  symbolic; \<^verbatim>\<open>new Date(undefined)\<close> is JavaScript's Invalid Date.\<close>

datatype jsdate = NewDate jsval

datatype target = ViewpointFromJSON jsval | CameraFromJSON jsval

text \<open>Calls into the mapping SDK. Layers are objects, named by their reference.\<close>

datatype sdk_call =
    FromJSON target
  | GoTo target bool nat
  | Play
  | Stop
  | MapRemove nat
  | LayerClone nat
  | MapAdd nat nat
  | LayerWhen nat

datatype error =
    TypeError string
  | ReferenceError string
  | SdkError sdk_call
  | Rejected sdk_call
  | FetchError string

text \<open>A statement either completes or throws.\<close>

datatype 'a outcome = Normal 'a | Thrown error

text \<open>Truthiness, as \<^verbatim>\<open>if (v)\<close>, \<^verbatim>\<open>!v\<close> and \<^verbatim>\<open>a && b\<close> test it.\<close>

fun truthy :: "jsval \<Rightarrow> bool" where
  "truthy JUndefined = False"
| "truthy JNull = False"
| "truthy (JBool b) = b"
| "truthy (JNum n) = (n \<noteq> 0)"
| "truthy (JStr s) = (s \<noteq> [])"
| "truthy (JArr xs) = True"
| "truthy (JObj kvs) = True"

text \<open>
  \<^verbatim>\<open>new Date(v)\<close> and \<^verbatim>\<open>v > 0\<close> first convert an object \<open>v\<close> to a primitive, through
  \<^verbatim>\<open>valueOf\<close> and \<^verbatim>\<open>toString\<close>. A parsed object inherits both from \<^verbatim>\<open>Object.prototype\<close>,
  unless it has an own property of that name, which is data and cannot be called. The
  inherited \<^verbatim>\<open>valueOf\<close> returns the object itself, so the conversion rests on
  \<^verbatim>\<open>toString\<close>, and throws a TypeError when the object has an own \<^verbatim>\<open>toString\<close>. An
  array converts through \<^verbatim>\<open>join\<close>, which converts its elements the same way.
\<close>

fun to_primitive_throws :: "jsval \<Rightarrow> bool" where
  "to_primitive_throws (JObj kvs) = (case map_of kvs ''toString'' of None \<Rightarrow> False | Some x \<Rightarrow> True)"
| "to_primitive_throws (JArr xs) = (\<exists>x \<in> set xs. to_primitive_throws x)"
| "to_primitive_throws v = False"

definition new_Date :: "jsval \<Rightarrow> jsdate outcome" where
  "new_Date v = (if to_primitive_throws v then Thrown (TypeError ''toString'') else Normal (NewDate v))"

text \<open>
  \<^verbatim>\<open>v.name\<close> for the data property names the program reads (\<^verbatim>\<open>timeSlider\<close>,
  \<^verbatim>\<open>timeSliderStart\<close>, \<^verbatim>\<open>camera\<close>, \<^verbatim>\<open>layersOn\<close>, ...): reading a property of
  \<^verbatim>\<open>undefined\<close> or \<^verbatim>\<open>null\<close> throws a TypeError, an object yields its own property or
  \<^verbatim>\<open>undefined\<close>, and a primitive or an array has no property of such a name.
\<close>

fun get_prop :: "jsval \<Rightarrow> string \<Rightarrow> jsval outcome" where
  "get_prop JUndefined name = Thrown (TypeError name)"
| "get_prop JNull name = Thrown (TypeError name)"
| "get_prop (JObj kvs) name =
     Normal (case map_of kvs name of None \<Rightarrow> JUndefined | Some v \<Rightarrow> v)"
| "get_prop v name = Normal JUndefined"

fun string_of_nat :: "nat \<Rightarrow> string" where
  "string_of_nat n =
     (if n < 10 then [char_of (48 + n)]
      else string_of_nat (n div 10) @ [char_of (48 + n mod 10)])"

declare string_of_nat.simps [simp del]

definition string_of_int :: "int \<Rightarrow> string" where
  "string_of_int i = (if i < 0 then CHR ''-'' # string_of_nat (nat (- i)) else string_of_nat (nat i))"

text \<open>The property key a number converts to; \<open>None\<close> is \<^verbatim>\<open>NaN\<close>.\<close>

definition key_of_index :: "int option \<Rightarrow> string" where
  "key_of_index i = (case i of None \<Rightarrow> ''NaN'' | Some n \<Rightarrow> string_of_int n)"

text \<open>
  \<^verbatim>\<open>v[i]\<close> for a numeric \<open>i\<close>: an array element inside its bounds, a string's character,
  an object's property under the number's decimal key, and \<^verbatim>\<open>undefined\<close> otherwise.
\<close>

fun get_index :: "jsval \<Rightarrow> int option \<Rightarrow> jsval outcome" where
  "get_index JUndefined i = Thrown (TypeError (key_of_index i))"
| "get_index JNull i = Thrown (TypeError (key_of_index i))"
| "get_index (JArr xs) i =
     Normal (case i of
               None \<Rightarrow> JUndefined
             | Some n \<Rightarrow> if 0 \<le> n \<and> n < int (length xs) then xs ! nat n else JUndefined)"
| "get_index (JStr s) i =
     Normal (case i of
               None \<Rightarrow> JUndefined
             | Some n \<Rightarrow> if 0 \<le> n \<and> n < int (length s) then JStr [s ! nat n] else JUndefined)"
| "get_index (JObj kvs) i =
     Normal (case map_of kvs (key_of_index i) of None \<Rightarrow> JUndefined | Some v \<Rightarrow> v)"
| "get_index v i = Normal JUndefined"

text \<open>\<^verbatim>\<open>Object.entries(v)\<close>: own enumerable string-keyed properties, in order.\<close>

fun indexed :: "nat \<Rightarrow> jsval list \<Rightarrow> (string \<times> jsval) list" where
  "indexed n [] = []"
| "indexed n (x # xs) = (string_of_nat n, x) # indexed (Suc n) xs"

fun entries :: "jsval \<Rightarrow> (string \<times> jsval) list outcome" where
  "entries JUndefined = Thrown (TypeError ''Object.entries'')"
| "entries JNull = Thrown (TypeError ''Object.entries'')"
| "entries (JObj kvs) = Normal kvs"
| "entries (JArr xs) = Normal (indexed 0 xs)"
| "entries (JStr s) = Normal (indexed 0 (map (\<lambda>c. JStr [c]) s))"
| "entries v = Normal []"

subsection \<open>\<^verbatim>\<open>parseInt(s, 10)\<close>\<close>

definition is_space :: "char \<Rightarrow> bool" where
  "is_space c = (c \<in> set [CHR 0x09, CHR 0x0A, CHR 0x0B, CHR 0x0C, CHR 0x0D, CHR 0x20])"

definition is_digit :: "char \<Rightarrow> bool" where
  "is_digit c = (48 \<le> (of_char c :: nat) \<and> (of_char c :: nat) \<le> 57)"

definition digit_val :: "char \<Rightarrow> int" where
  "digit_val c = int (of_char c) - 48"

definition digits_val :: "string \<Rightarrow> int" where
  "digits_val ds = foldl (\<lambda>acc c. 10 * acc + digit_val c) 0 ds"

text \<open>
  Leading white space is skipped, one sign is read, then the longest run of decimal
  digits; no digit gives \<^verbatim>\<open>NaN\<close> (\<open>None\<close>). The result is the mathematical integer
  (the engine rounds magnitudes above \<open>2^53\<close> to a double, far beyond any array length).
\<close>

definition parseInt :: "string \<Rightarrow> int option" where
  "parseInt s =
     (let t = dropWhile is_space s;
          neg = (t \<noteq> [] \<and> hd t = CHR ''-'');
          u = (if t \<noteq> [] \<and> (hd t = CHR ''-'' \<or> hd t = CHR ''+'') then tl t else t);
          z = takeWhile is_digit u
      in if z = [] then None
         else Some (if neg then - digits_val z else digits_val z))"


section \<open>The objects the program mutates\<close>

record js_interval =
  interval_value :: jsval
  interval_unit :: jsval

record extent =
  ext_start :: "jsdate option"
  ext_end :: "jsdate option"

text \<open>
  The \<^verbatim>\<open>arcgis-time-slider\<close> element: the three properties the program assigns and the
  \<^verbatim>\<open>state\<close> it reads. A property the program has not assigned yet is \<open>None\<close>. What the
  SDK itself does to \<^verbatim>\<open>state\<close> on \<^verbatim>\<open>play()\<close>, \<^verbatim>\<open>stop()\<close> or an assignment belongs to
  the SDK: the calls are recorded, \<open>state\<close> is what the program last read.
\<close>

record slider =
  fullTimeExtent :: "extent option"
  timeExtent :: "extent option"
  stops :: "js_interval option"
  state :: string

record time_info =
  startField :: jsval
  trackIdField :: jsval
  interval :: "js_interval option"

text \<open>A map layer; \<open>other\<close> stands for every property the program never touches, and a
  \<^verbatim>\<open>null\<close> \<^verbatim>\<open>timeInfo\<close> is \<open>None\<close>.\<close>

record layer =
  title :: string
  visible :: bool
  timeInfo :: "time_info option"
  trackInfo :: jsval
  other :: jsval

datatype console_arg = AStr string | AErr error | AVal jsval | ADate jsdate

datatype event =
    Call sdk_call
  | ConsoleError "console_arg list"
  | ConsoleLog "console_arg list"

text \<open>
  Work that waits for a promise of the SDK: the \<^verbatim>\<open>.catch\<close> callback of a \<^verbatim>\<open>goTo\<close>, and
  the rest of \<^verbatim>\<open>applyTrackRenderer\<close> after \<^verbatim>\<open>await trackLayer.when()\<close> with the
  locals it has captured (the clone, \<^verbatim>\<open>trackRenderer\<close>, \<^verbatim>\<open>trackLayerField\<close>,
  \<^verbatim>\<open>trackTimeSliderUnit\<close>, \<^verbatim>\<open>trackTimeSliderStep\<close>).
\<close>

datatype task =
    GoToCatch string sdk_call
  | AwaitWhen nat jsval jsval jsval jsval

text \<open>What \<^verbatim>\<open>fetch(path)\<close> followed by \<^verbatim>\<open>response.json()\<close> comes to.\<close>

datatype fetch_result = FetchRejects error | JsonRejects error | Loaded jsval

text \<open>
  Everything the two modules share. Layers live in a store (\<open>heap\<close>) and the map's layer
  collection \<open>mapLayers\<close> holds references, so that a clone is a new object and a pending
  continuation keeps mutating the object it captured. \<open>sdk_throws\<close> and \<open>sdk_rejects\<close>
  say which SDK calls throw and which of their promises reject; \<open>reads_positive\<close> says
  which strings and arrays the engine reads as a number above zero; \<open>trace\<close> records SDK
  calls and console output in order; \<open>invoked\<close> records the key at every
  \<^verbatim>\<open>handler(context)\<close> call of the dispatcher. \<open>resetButton\<close> is the \<^verbatim>\<open>disabled\<close>
  flag of the button, \<open>None\<close> when the document has no such element, as \<open>timeSlider\<close>
  is \<open>None\<close> when it has no time slider.
\<close>

record world =
  choreographyData :: jsval
  hashIndex :: "int option"
  isEmbedded :: bool
  DEBUG :: bool
  timeSlider :: "slider option"
  resetButton :: "bool option"
  fetch :: "string \<Rightarrow> fetch_result"
  hashListener :: bool
  resetListener :: bool
  heap :: "nat \<Rightarrow> layer"
  mapLayers :: "nat list"
  next_ref :: nat
  sdk_throws :: "sdk_call \<Rightarrow> bool"
  sdk_rejects :: "sdk_call \<Rightarrow> bool"
  reads_positive :: "jsval \<Rightarrow> bool"
  trace :: "event list"
  invoked :: "string list"
  pending :: "task list"

definition emit :: "event \<Rightarrow> world \<Rightarrow> world" where
  "emit e w = w\<lparr>trace := trace w @ [e]\<rparr>"

definition console_error :: "console_arg list \<Rightarrow> world \<Rightarrow> world" where
  "console_error args w = emit (ConsoleError args) w"

definition console_log :: "console_arg list \<Rightarrow> world \<Rightarrow> world" where
  "console_log args w = emit (ConsoleLog args) w"

text \<open>A call of an SDK method: recorded, and thrown out of when the SDK throws.\<close>

definition sdk :: "sdk_call \<Rightarrow> world \<Rightarrow> unit outcome \<times> world" where
  "sdk c w = (if sdk_throws w c then Thrown (SdkError c) else Normal (), emit (Call c) w)"

definition and_then ::
  "unit outcome \<times> world \<Rightarrow> (world \<Rightarrow> unit outcome \<times> world) \<Rightarrow> unit outcome \<times> world" where
  "and_then m f = (case m of (Normal u, w) \<Rightarrow> f w | (Thrown e, w) \<Rightarrow> (Thrown e, w))"

definition await :: "task \<Rightarrow> world \<Rightarrow> world" where
  "await t w = w\<lparr>pending := pending w @ [t]\<rparr>"


section \<open>The choreography dispatcher (\<^verbatim>\<open>slideAnimator.js\<close>)\<close>

text \<open>
  The identifiers the module binds: its one import, \<^verbatim>\<open>Viewpoint\<close>, and its own
  top-level declarations. An identifier that neither the module nor the browser's global
  object binds (\<^verbatim>\<open>Camera\<close> is not imported) throws a ReferenceError when evaluated.
\<close>

definition module_scope :: "string list" where
  "module_scope =
     [''Viewpoint'', ''choreographyHandlers'', ''NON_EMBED_EXCLUDE_KEYS'', ''slideAnimation'',
      ''toggleViewpoint'', ''toggleCamera'', ''toggleTimeSlider'', ''toggleLayerVisibility'',
      ''toggleTrackRenderer'']"

definition resolve :: "string \<Rightarrow> world \<Rightarrow> unit outcome \<times> world" where
  "resolve name w =
     (if name \<in> set module_scope then (Normal (), w) else (Thrown (ReferenceError name), w))"

text \<open>
  Every handler takes the context \<^verbatim>\<open>{ slideData, mapView, timeSlider, embedded }\<close>;
  \<^verbatim>\<open>mapView\<close> and \<^verbatim>\<open>timeSlider\<close> are the objects of the world.
\<close>

type_synonym handler = "jsval \<Rightarrow> bool \<Rightarrow> world \<Rightarrow> unit outcome \<times> world"

definition toggleViewpoint :: handler where
  "toggleViewpoint slideData embedded w =
     and_then (resolve ''Viewpoint'' w) (\<lambda>w.
       case get_prop slideData ''viewpoint'' of
         Thrown e \<Rightarrow> (Thrown e, w)
       | Normal v \<Rightarrow>
           and_then (sdk (FromJSON (ViewpointFromJSON v)) w) (\<lambda>w.
           and_then (sdk (GoTo (ViewpointFromJSON v) True 1000) w) (\<lambda>w.
             (Normal (),
              await (GoToCatch ''Error setting viewpoint:'' (GoTo (ViewpointFromJSON v) True 1000)) w))))"

definition toggleCamera :: handler where
  "toggleCamera slideData embedded w =
     (case get_prop slideData ''camera'' of
        Thrown e \<Rightarrow> (Thrown e, w)
      | Normal cameraData \<Rightarrow>
          if \<not> truthy cameraData then (Normal (), w)
          else
            and_then (resolve ''Camera'' w) (\<lambda>w.
            and_then (sdk (FromJSON (CameraFromJSON cameraData)) w) (\<lambda>w.
            and_then (sdk (GoTo (CameraFromJSON cameraData) True 1000) w) (\<lambda>w.
              (Normal (),
               await (GoToCatch ''Error setting camera:'' (GoTo (CameraFromJSON cameraData) True 1000)) w)))))"

text \<open>
  The guard \<^verbatim>\<open>timeSlider && slideData.timeSlider && ...timeSliderStart && ...timeSliderEnd\<close>,
  evaluated left to right: the slide's \<^verbatim>\<open>timeSlider\<close> object when all four are truthy.
\<close>

definition timeSlider_guard :: "slider option \<Rightarrow> jsval \<Rightarrow> jsval option outcome" where
  "timeSlider_guard ts slideData =
     (if ts = None then Normal None
      else (case get_prop slideData ''timeSlider'' of
        Thrown e \<Rightarrow> Thrown e
      | Normal cfg \<Rightarrow>
          if \<not> truthy cfg then Normal None
          else (case get_prop cfg ''timeSliderStart'' of
            Thrown e \<Rightarrow> Thrown e
          | Normal t0 \<Rightarrow>
              if \<not> truthy t0 then Normal None
              else (case get_prop cfg ''timeSliderEnd'' of
                Thrown e \<Rightarrow> Thrown e
              | Normal t1 \<Rightarrow> if \<not> truthy t1 then Normal None else Normal (Some cfg)))))"

text \<open>The field of a value already known to be an object (the guard has passed).\<close>

definition field :: "jsval \<Rightarrow> string \<Rightarrow> jsval" where
  "field v name = (case get_prop v name of Normal x \<Rightarrow> x | Thrown e \<Rightarrow> JUndefined)"

text \<open>
  What both \<^verbatim>\<open>toggleTimeSlider\<close> and \<^verbatim>\<open>configureTimeSlider\<close> do with the config: the four
  reads, the two \<^verbatim>\<open>new Date\<close> (either may throw, before anything is assigned), and the
  three assignments.
\<close>

definition configure_extents :: "jsval \<Rightarrow> slider \<Rightarrow> slider outcome" where
  "configure_extents cfg ts =
     (let timeStart = field cfg ''timeSliderStart'';
          timeEnd = field cfg ''timeSliderEnd'';
          timeUnit = field cfg ''timeSliderUnit'';
          timeStep = field cfg ''timeSliderStep''
      in case new_Date timeStart of
           Thrown e \<Rightarrow> Thrown e
         | Normal startFrame \<Rightarrow>
             (case new_Date timeEnd of
                Thrown e \<Rightarrow> Thrown e
              | Normal endFrame \<Rightarrow>
                  Normal (ts\<lparr>fullTimeExtent := Some \<lparr>ext_start = Some startFrame,
                                                       ext_end = Some endFrame\<rparr>,
                             timeExtent := Some \<lparr>ext_start = None, ext_end = Some startFrame\<rparr>,
                             stops := Some \<lparr>interval_value = timeStep,
                                             interval_unit = timeUnit\<rparr>\<rparr>)))"

definition toggleTimeSlider :: handler where
  "toggleTimeSlider slideData embedded w =
     (case timeSlider_guard (timeSlider w) slideData of
        Thrown e \<Rightarrow> (Thrown e, w)
      | Normal None \<Rightarrow> (Normal (), w)
      | Normal (Some cfg) \<Rightarrow>
          (case timeSlider w of
             None \<Rightarrow> (Normal (), w)
           | Some ts \<Rightarrow>
               (case configure_extents cfg ts of
                  Thrown e \<Rightarrow> (Thrown e, w)
                | Normal ts' \<Rightarrow>
                    let w1 = w\<lparr>timeSlider := Some ts'\<rparr>
                    in if state ts = ''ready'' \<and> \<not> embedded then sdk Play w1
                       else if state ts = ''ready'' \<and> embedded then sdk Stop w1
                       else if timeSlider w1 = None
                         then (Normal (), console_log [AStr ''No timeSlider component found.''] w1)
                       else (Normal (),
                             console_log
                               [AStr ''No timeSlider configuration found in choreography.''] w1))))"

subsection \<open>Layer visibility\<close>

text \<open>
  \<^verbatim>\<open>layerNames.length\<close> and \<^verbatim>\<open>layerNames.includes(title)\<close> for whatever value the slide
  holds: an array has its length and tests membership by strict equality, a string has
  its length and tests for a substring, an object has the \<^verbatim>\<open>length\<close> it declares and no
  \<^verbatim>\<open>includes\<close> to call.
\<close>

fun js_length :: "jsval \<Rightarrow> jsval" where
  "js_length (JArr xs) = JNum (int (length xs))"
| "js_length (JStr s) = JNum (int (length s))"
| "js_length (JObj kvs) = (case map_of kvs ''length'' of None \<Rightarrow> JUndefined | Some v \<Rightarrow> v)"
| "js_length v = JUndefined"

text \<open>
  \<^verbatim>\<open>v > 0\<close>. A number compares as it is, \<^verbatim>\<open>true\<close> as 1, \<^verbatim>\<open>false\<close> and \<^verbatim>\<open>null\<close> as 0,
  \<^verbatim>\<open>undefined\<close> as \<^verbatim>\<open>NaN\<close>. An object is converted to a primitive, which throws or
  gives a string that is no number. A string, or the string an array joins to, is read
  as a number by the engine: which strings read as a number above zero is the world's
  \<open>reads_positive\<close>. (Such values are only met as the \<^verbatim>\<open>length\<close> an object declares.)
\<close>

fun gt_zero :: "world \<Rightarrow> jsval \<Rightarrow> bool outcome" where
  "gt_zero w (JNum n) = Normal (0 < n)"
| "gt_zero w (JBool b) = Normal b"
| "gt_zero w JNull = Normal False"
| "gt_zero w JUndefined = Normal False"
| "gt_zero w (JObj kvs) =
     (if to_primitive_throws (JObj kvs) then Thrown (TypeError ''toString'') else Normal False)"
| "gt_zero w v =
     (if to_primitive_throws v then Thrown (TypeError ''toString'')
      else Normal (reads_positive w v))"

fun js_includes :: "jsval \<Rightarrow> string \<Rightarrow> bool outcome" where
  "js_includes (JArr xs) t = Normal (JStr t \<in> set xs)"
| "js_includes (JStr s) t = Normal (sublist t s)"
| "js_includes v t = Thrown (TypeError ''includes'')"

definition quoted :: "string \<Rightarrow> string" where
  "quoted s = [CHR 0x27] @ s @ [CHR 0x27]"

definition set_visible :: "nat \<Rightarrow> bool \<Rightarrow> world \<Rightarrow> world" where
  "set_visible r visibility w = w\<lparr>heap := (heap w)(r := (heap w r)\<lparr>visible := visibility\<rparr>)\<rparr>"

text \<open>\<^verbatim>\<open>mapLayers.forEach\<close> with the callback of \<^verbatim>\<open>setLayerVisibility\<close>.\<close>

fun forEach_layer :: "jsval \<Rightarrow> bool \<Rightarrow> nat list \<Rightarrow> world \<Rightarrow> unit outcome \<times> world" where
  "forEach_layer layerNames visibility [] w = (Normal (), w)"
| "forEach_layer layerNames visibility (r # rs) w =
     (case js_includes layerNames (title (heap w r)) of
        Thrown e \<Rightarrow> (Thrown e, w)
      | Normal b \<Rightarrow>
          forEach_layer layerNames visibility rs
            (if b
             then console_log
                    [AStr (''Layer '' @ quoted (title (heap w r)) @ '' visibility set to ''
                           @ (if visibility then ''true'' else ''false''))]
                    (set_visible r visibility w)
             else w))"

definition setLayerVisibility :: "jsval \<Rightarrow> bool \<Rightarrow> world \<Rightarrow> unit outcome \<times> world" where
  "setLayerVisibility layerNames visibility w =
     (if \<not> truthy layerNames then (Normal (), w)
      else (case gt_zero w (js_length layerNames) of
              Thrown e \<Rightarrow> (Thrown e, w)
            | Normal b \<Rightarrow>
                if b then forEach_layer layerNames visibility (mapLayers w) w
                else (Normal (), w)))"

definition toggleLayerVisibility :: handler where
  "toggleLayerVisibility slideData embedded w =
     (case get_prop slideData ''layerVisibility'' of
        Thrown e \<Rightarrow> (Thrown e, w)
      | Normal lv \<Rightarrow>
          (case get_prop lv ''layersOn'' of
             Thrown e \<Rightarrow> (Thrown e, w)
           | Normal layersOn \<Rightarrow>
               (case get_prop lv ''layersOff'' of
                  Thrown e \<Rightarrow> (Thrown e, w)
                | Normal layersOff \<Rightarrow>
                    and_then (setLayerVisibility layersOn True w)
                             (setLayerVisibility layersOff False))))"


subsection \<open>Track renderer\<close>

fun indexOf :: "nat list \<Rightarrow> nat \<Rightarrow> nat" where
  "indexOf [] r = 0"
| "indexOf (x # xs) r = (if x = r then 0 else Suc (indexOf xs r))"

text \<open>
  \<^verbatim>\<open>mapView.map.remove\<close> and \<^verbatim>\<open>mapView.map.add\<close>, each inside its own
  \<^verbatim>\<open>try\<close>/\<^verbatim>\<open>catch\<close>: a call that throws is logged and the function goes on. A call that
  succeeds takes the layer out of the collection, or puts it in at the index (at the
  end, when the index is past it).
\<close>

definition try_remove :: "nat \<Rightarrow> world \<Rightarrow> world" where
  "try_remove r w =
     (case sdk (MapRemove r) w of
        (Thrown e, w1) \<Rightarrow> console_error [AStr ''Failed to remove track layer:'', AErr e] w1
      | (Normal u, w1) \<Rightarrow> w1\<lparr>mapLayers := remove1 r (mapLayers w1)\<rparr>)"

definition try_add :: "nat \<Rightarrow> nat \<Rightarrow> world \<Rightarrow> world" where
  "try_add c i w =
     (case sdk (MapAdd c i) w of
        (Thrown e, w1) \<Rightarrow> console_error [AStr ''Failed to add track layer:'', AErr e] w1
      | (Normal u, w1) \<Rightarrow>
          w1\<lparr>mapLayers := take i (mapLayers w1) @ [c] @ drop i (mapLayers w1)\<rparr>)"

text \<open>\<^verbatim>\<open>trackLayer.clone()\<close>: a new object with the properties of the old one.\<close>

definition clone :: "nat \<Rightarrow> world \<Rightarrow> nat outcome \<times> world" where
  "clone r w =
     (case sdk (LayerClone r) w of
        (Thrown e, w1) \<Rightarrow> (Thrown e, w1)
      | (Normal u, w1) \<Rightarrow>
          (Normal (next_ref w1),
           w1\<lparr>heap := (heap w1)(next_ref w1 := heap w1 r), next_ref := Suc (next_ref w1)\<rparr>))"

text \<open>
  The body of \<^verbatim>\<open>applyTrackRenderer\<close> up to its \<^verbatim>\<open>await\<close>: what runs before the
  function hands control back to the dispatcher.
\<close>

definition applyTrackRenderer_body :: "jsval \<Rightarrow> jsval \<Rightarrow> world \<Rightarrow> unit outcome \<times> world" where
  "applyTrackRenderer_body trackRenderer timeSliderCfg w =
     (case get_prop trackRenderer ''trackFieldName'' of
        Thrown e \<Rightarrow> (Thrown e, w)
      | Normal trackLayerField \<Rightarrow>
     (case get_prop timeSliderCfg ''timeSliderUnit'' of
        Thrown e \<Rightarrow> (Thrown e, w)
      | Normal trackTimeSliderUnit \<Rightarrow>
     (case get_prop timeSliderCfg ''timeSliderStep'' of
        Thrown e \<Rightarrow> (Thrown e, w)
      | Normal trackTimeSliderStep \<Rightarrow>
     (case find (\<lambda>r. JStr (title (heap w r)) = field trackRenderer ''trackLayerName'')
                (mapLayers w) of
        None \<Rightarrow> (Normal (), w)
      | Some trackLayer \<Rightarrow>
          (let layerIndex = indexOf (mapLayers w) trackLayer;
               w1 = try_remove trackLayer w
           in case clone trackLayer w1 of
                (Thrown e, w2) \<Rightarrow> (Thrown e, w2)
              | (Normal c, w2) \<Rightarrow>
                  (let w3 = try_add c layerIndex w2;
                       w4 = console_log [AStr ''Applying track renderer:'',
                                         AVal (field trackRenderer ''trackLayerName'')] w3
                   in and_then (sdk (LayerWhen c) w4) (\<lambda>w5.
                        (Normal (),
                         await (AwaitWhen c trackRenderer trackLayerField
                                          trackTimeSliderUnit trackTimeSliderStep) w5))))))))"

text \<open>The \<^verbatim>\<open>catch\<close> around the whole body: the async function never throws to its caller.\<close>

definition track_catch :: "unit outcome \<times> world \<Rightarrow> world" where
  "track_catch m =
     (case m of
        (Thrown e, w) \<Rightarrow> console_error [AStr ''Failed to set track Renderer:'', AErr e] w
      | (Normal u, w) \<Rightarrow> w)"

definition applyTrackRenderer :: "jsval \<Rightarrow> jsval \<Rightarrow> world \<Rightarrow> world" where
  "applyTrackRenderer trackRenderer timeSliderCfg w =
     track_catch (applyTrackRenderer_body trackRenderer timeSliderCfg w)"

definition toggleTrackRenderer :: handler where
  "toggleTrackRenderer slideData embedded w =
     (case get_prop slideData ''timeSlider'' of
        Thrown e \<Rightarrow> (Thrown e, w)
      | Normal trackTimeConfig \<Rightarrow>
          (case get_prop slideData ''trackRenderer'' of
             Thrown e \<Rightarrow> (Thrown e, w)
           | Normal trackRenderer \<Rightarrow>
               (Normal (), applyTrackRenderer trackRenderer trackTimeConfig w)))"




subsection \<open>The dispatch table and \<^verbatim>\<open>slideAnimation\<close>\<close>

definition choreographyHandlers :: "(string \<times> handler) list" where
  "choreographyHandlers =
     [(''viewpoint'', toggleViewpoint),
      (''timeSlider'', toggleTimeSlider),
      (''layerVisibility'', toggleLayerVisibility),
      (''trackRenderer'', toggleTrackRenderer),
      (''camera'', toggleCamera)]"

text \<open>
  \<^verbatim>\<open>choreographyHandlers[key]\<close> also finds what the object literal inherits from
  \<^verbatim>\<open>Object.prototype\<close>. Called as \<^verbatim>\<open>handler(context)\<close>, with no receiver,
  \<^verbatim>\<open>constructor\<close> and \<^verbatim>\<open>toString\<close> return, \<^verbatim>\<open>__proto__\<close> is an object and not
  callable, and the other methods throw a TypeError converting their missing receiver.
\<close>

definition returns_quietly :: handler where
  "returns_quietly slideData embedded w = (Normal (), w)"

definition throws_TypeError :: "string \<Rightarrow> handler" where
  "throws_TypeError name slideData embedded w = (Thrown (TypeError name), w)"

definition object_prototype :: "(string \<times> handler) list" where
  "object_prototype =
     [(''constructor'', returns_quietly),
      (''toString'', returns_quietly),
      (''__proto__'', throws_TypeError ''__proto__''),
      (''hasOwnProperty'', throws_TypeError ''hasOwnProperty''),
      (''isPrototypeOf'', throws_TypeError ''isPrototypeOf''),
      (''propertyIsEnumerable'', throws_TypeError ''propertyIsEnumerable''),
      (''toLocaleString'', throws_TypeError ''toLocaleString''),
      (''valueOf'', throws_TypeError ''valueOf''),
      (''__defineGetter__'', throws_TypeError ''__defineGetter__''),
      (''__defineSetter__'', throws_TypeError ''__defineSetter__''),
      (''__lookupGetter__'', throws_TypeError ''__lookupGetter__''),
      (''__lookupSetter__'', throws_TypeError ''__lookupSetter__'')]"

definition lookup_handler :: "string \<Rightarrow> handler option" where
  "lookup_handler key =
     (case map_of choreographyHandlers key of
        Some h \<Rightarrow> Some h
      | None \<Rightarrow> map_of object_prototype key)"

definition NON_EMBED_EXCLUDE_KEYS :: "string set" where
  "NON_EMBED_EXCLUDE_KEYS = {''viewpoint''}"

text \<open>The callback of \<^verbatim>\<open>Object.entries(slideData).forEach\<close>, for one entry.\<close>

definition animate_entry :: "jsval \<Rightarrow> bool \<Rightarrow> world \<Rightarrow> string \<times> jsval \<Rightarrow> world" where
  "animate_entry slideData embedded w kv =
     (case lookup_handler (fst kv) of
        None \<Rightarrow> w
      | Some h \<Rightarrow>
          if embedded \<and> fst kv \<in> NON_EMBED_EXCLUDE_KEYS then w
          else (case h slideData embedded (w\<lparr>invoked := invoked w @ [fst kv]\<rparr>) of
                  (Thrown e, w1) \<Rightarrow>
                    console_error [AStr (''Error processing '' @ quoted (fst kv) @ '':''), AErr e] w1
                | (Normal u, w1) \<Rightarrow> w1))"

definition slideAnimation :: "jsval \<Rightarrow> bool \<Rightarrow> world \<Rightarrow> unit outcome \<times> world" where
  "slideAnimation slideData embedded w =
     (case entries slideData of
        Thrown e \<Rightarrow> (Thrown e, w)
      | Normal es \<Rightarrow> (Normal (), foldl (animate_entry slideData embedded) w es))"


section \<open>The slide driver (\<^verbatim>\<open>main.js\<close>)\<close>

text \<open>The module's \<^verbatim>\<open>log\<close>: console output only in debug mode.\<close>

definition log :: "console_arg list \<Rightarrow> world \<Rightarrow> world" where
  "log args w = (if DEBUG w then console_log args w else w)"

definition loadChoreography :: "string \<Rightarrow> world \<Rightarrow> world" where
  "loadChoreography path w =
     (case fetch w path of
        FetchRejects e \<Rightarrow> console_error [AStr ''Failed to load choreography:'', AErr e] w
      | JsonRejects e \<Rightarrow> console_error [AStr ''Failed to load choreography:'', AErr e] w
      | Loaded v \<Rightarrow> log [AStr ''Loaded data'', AVal v] (w\<lparr>choreographyData := v\<rparr>))"

text \<open>The listener of \<^verbatim>\<open>hashchange\<close>, run with \<^verbatim>\<open>window.location.hash\<close>.\<close>

definition on_hashchange :: "string \<Rightarrow> world \<Rightarrow> unit outcome \<times> world" where
  "on_hashchange hash w =
     (let w1 = log [AStr (''Hash changed to: '' @ hash)] w;
          w2 = w1\<lparr>hashIndex := parseInt (drop 1 hash)\<rparr>
      in if hashIndex w2 = None
         then (Normal (), log [AStr ''No valid hash index found.''] w2)
         else (case get_index (choreographyData w2) (hashIndex w2) of
                 Thrown e \<Rightarrow> (Thrown e, w2)
               | Normal currentSlide \<Rightarrow>
                   if \<not> truthy currentSlide
                   then (Normal (), log [AStr ''No valid hash index found.''] w2)
                   else slideAnimation currentSlide (isEmbedded w2) w2))"

definition setupHashListener :: "world \<Rightarrow> world" where
  "setupHashListener w = w\<lparr>hashListener := True\<rparr>"

text \<open>The listener of the reset button's \<^verbatim>\<open>click\<close>.\<close>

definition on_reset_click :: "world \<Rightarrow> unit outcome \<times> world" where
  "on_reset_click w =
     (case get_index (choreographyData w) (hashIndex w) of
        Thrown e \<Rightarrow> (Thrown e, w)
      | Normal config \<Rightarrow>
          if truthy config
          then (case new_Date (field config ''timeSliderStart'') of
                  Thrown e \<Rightarrow> (Thrown e, w)
                | Normal startFrame \<Rightarrow>
                    (case timeSlider w of
                       None \<Rightarrow> (Thrown (TypeError ''timeExtent''), w)
                     | Some ts \<Rightarrow>
                         (let w1 = w\<lparr>timeSlider := Some (ts
                                      \<lparr>timeExtent := Some \<lparr>ext_start = None,
                                                             ext_end = Some startFrame\<rparr>\<rparr>)\<rparr>
                          in and_then (if state ts = ''ready'' then sdk Play w1 else (Normal (), w1))
                               (\<lambda>w2. (Normal (), log [AStr ''Animation reset and replayed.''] w2)))))
          else (Normal (),
                console_error [AStr ''No configuration found for the current hash.''] w))"

definition setupResetButton :: "world \<Rightarrow> unit outcome \<times> world" where
  "setupResetButton w =
     (case resetButton w of
        None \<Rightarrow> (Thrown (TypeError ''addEventListener''), w)
      | Some d \<Rightarrow> (Normal (), w\<lparr>resetListener := True\<rparr>))"

definition configureTimeSlider :: "world \<Rightarrow> unit outcome \<times> world" where
  "configureTimeSlider w =
     (case get_index (choreographyData w) (Some 0) of
        Thrown e \<Rightarrow> (Thrown e, w)
      | Normal slideData \<Rightarrow>
          (case timeSlider_guard (timeSlider w) slideData of
             Thrown e \<Rightarrow> (Thrown e, w)
           | Normal (Some cfg) \<Rightarrow>
               (case timeSlider w of
                  None \<Rightarrow> (Normal (), w)
                | Some ts \<Rightarrow>
                    (case configure_extents cfg ts of
                       Thrown e \<Rightarrow> (Thrown e, w)
                     | Normal ts' \<Rightarrow>
                         (let w1 = log [AStr ''Configuring time slider:'',
                                        ADate (NewDate (field cfg ''timeSliderStart'')),
                                        ADate (NewDate (field cfg ''timeSliderEnd'')),
                                        AVal (field cfg ''timeSliderUnit''),
                                        AVal (field cfg ''timeSliderStep'')] w;
                              w2 = w1\<lparr>timeSlider := Some ts'\<rparr>
                          in if state ts = ''ready'' \<and> \<not> isEmbedded w then sdk Play w2
                             else (Normal (), w2))))
           | Normal None \<Rightarrow>
               if timeSlider w = None
               then (Normal (), log [AStr ''No timeSlider component found.''] w)
               else (Normal (),
                     log [AStr ''No timeSlider configuration found in choreography.''] w)))"

definition initMapAnimator :: "string \<Rightarrow> world \<Rightarrow> unit outcome \<times> world" where
  "initMapAnimator choreographyPath w =
     and_then (configureTimeSlider (setupHashListener (loadChoreography choreographyPath w)))
              setupResetButton"

text \<open>The browser delivers an event to a listener that has been installed.\<close>

definition hashchange_event :: "string \<Rightarrow> world \<Rightarrow> unit outcome \<times> world" where
  "hashchange_event hash w = (if hashListener w then on_hashchange hash w else (Normal (), w))"

definition click_event :: "world \<Rightarrow> unit outcome \<times> world" where
  "click_event w = (if resetListener w then on_reset_click w else (Normal (), w))"

text \<open>\<^verbatim>\<open>updateResetButtonState\<close> is declared by the module and called from nowhere.\<close>

definition updateResetButtonState :: "world \<Rightarrow> unit outcome \<times> world" where
  "updateResetButtonState w =
     (case get_index (choreographyData w) (hashIndex w) of
        Thrown e \<Rightarrow> (Thrown e, w)
      | Normal config \<Rightarrow>
          if truthy config \<and> truthy (field config ''timeSliderAutoplay'')
          then (case resetButton w of
                  None \<Rightarrow> (Thrown (TypeError ''disabled''), w)
                | Some d \<Rightarrow>
                    (case timeSlider w of
                       None \<Rightarrow> (Thrown (TypeError ''stop''), w\<lparr>resetButton := Some False\<rparr>)
                     | Some ts \<Rightarrow> sdk Stop (w\<lparr>resetButton := Some False\<rparr>)))
          else (case resetButton w of
                  None \<Rightarrow> (Thrown (TypeError ''disabled''), w)
                | Some d \<Rightarrow> (Normal (), w\<lparr>resetButton := Some True\<rparr>)))"

text \<open>
  The state the module starts in (\<^verbatim>\<open>choreographyData = []\<close>, \<^verbatim>\<open>hashIndex = 0\<close>,
  \<^verbatim>\<open>isEmbedded = false\<close>, no listener installed), in a document that has a time slider and
  a reset button, with an empty map, an SDK that neither throws nor rejects, and a
  choreography resource that cannot be fetched.
\<close>

definition blank_layer :: layer where
  "blank_layer = \<lparr>title = [], visible = False, timeInfo = None, trackInfo = JUndefined,
                   other = JUndefined\<rparr>"

definition initial_world :: world where
  "initial_world =
     \<lparr>choreographyData = JArr [],
      hashIndex = Some 0,
      isEmbedded = False,
      DEBUG = False,
      timeSlider = Some \<lparr>fullTimeExtent = None, timeExtent = None, stops = None, state = ''ready''\<rparr>,
      resetButton = Some False,
      fetch = (\<lambda>path. FetchRejects (FetchError path)),
      hashListener = False,
      resetListener = False,
      heap = (\<lambda>r. blank_layer),
      mapLayers = [],
      next_ref = 0,
      sdk_throws = (\<lambda>c. False),
      sdk_rejects = (\<lambda>c. False),
      reads_positive = (\<lambda>v. False),
      trace = [],
      invoked = [],
      pending = []\<rparr>"


section \<open>Notions the properties are stated with\<close>

text \<open>
  One handler call that is isolated from the rest: the call is recorded, what the handler
  did stays done, and an error it throws is logged under its key. A key without a
  handler is passed over.
\<close>

definition isolated_call :: "jsval \<Rightarrow> bool \<Rightarrow> world \<Rightarrow> string \<times> jsval \<Rightarrow> world" where
  "isolated_call slideData embedded w kv =
     (case lookup_handler (fst kv) of
        None \<Rightarrow> w
      | Some h \<Rightarrow>
          (case h slideData embedded (w\<lparr>invoked := invoked w @ [fst kv]\<rparr>) of
             (Normal u, w1) \<Rightarrow> w1
           | (Thrown e, w1) \<Rightarrow>
               console_error [AStr (''Error processing '' @ quoted (fst kv) @ '':''), AErr e] w1))"

text \<open>The entries that are dispatched: all of them, but for \<^verbatim>\<open>viewpoint\<close> in embedded mode.\<close>

definition kept :: "bool \<Rightarrow> (string \<times> jsval) list \<Rightarrow> (string \<times> jsval) list" where
  "kept embedded es = filter (\<lambda>kv. if embedded then fst kv \<noteq> ''viewpoint'' else True) es"

text \<open>The SDK calls of a view transition to a viewpoint.\<close>

fun is_viewpoint_call :: "event \<Rightarrow> bool" where
  "is_viewpoint_call (Call (FromJSON (ViewpointFromJSON v))) = True"
| "is_viewpoint_call (Call (GoTo (ViewpointFromJSON v) a d)) = True"
| "is_viewpoint_call e = False"

text \<open>The calls that start and stop playback.\<close>

definition playback_calls :: "event list \<Rightarrow> event list" where
  "playback_calls evs = filter (\<lambda>e. e = Call Play \<or> e = Call Stop) evs"



text \<open>A step from \<open>w\<close> to \<open>w'\<close> that records no handler call and makes no viewpoint call.\<close>

definition calm :: "world \<Rightarrow> world \<Rightarrow> bool" where
  "calm w w' =
     (invoked w' = invoked w
      \<and> filter is_viewpoint_call (trace w') = filter is_viewpoint_call (trace w))"

text \<open>
  One pass of \<^verbatim>\<open>setLayerVisibility\<close> over the map's layers \<open>rs\<close>, seen from the store: the
  layers of the map whose title is among \<open>ns\<close> get the visibility \<open>v\<close>.
\<close>

definition pass_heap :: "string list \<Rightarrow> bool \<Rightarrow> nat list \<Rightarrow> (nat \<Rightarrow> layer) \<Rightarrow> nat \<Rightarrow> layer" where
  "pass_heap ns v rs h r =
     (if r \<in> set rs \<and> title (h r) \<in> set ns then (h r)\<lparr>visible := v\<rparr> else h r)"

text \<open>The console line \<^verbatim>\<open>setLayerVisibility\<close> prints for a layer it assigns.\<close>

definition visibility_line :: "world \<Rightarrow> bool \<Rightarrow> nat \<Rightarrow> event" where
  "visibility_line w visibility r =
     ConsoleLog [AStr (''Layer '' @ quoted (title (heap w r)) @ '' visibility set to ''
                       @ (if visibility then ''true'' else ''false''))]"



subsection \<open>Sample slides and worlds\<close>

definition story_timeSlider :: jsval where
  "story_timeSlider =
     JObj [(''timeSliderStart'', JStr ''2024-05-01T06:00:00Z''),
           (''timeSliderEnd'', JStr ''2024-05-01T09:00:00Z''),
           (''timeSliderUnit'', JStr ''minutes''),
           (''timeSliderStep'', JNum 5)]"

definition story_slide :: jsval where
  "story_slide = JObj [(''timeSlider'', story_timeSlider)]"

definition camera_slide :: jsval where
  "camera_slide =
     JObj [(''camera'', JObj [(''heading'', JNum 90), (''tilt'', JNum 45)]),
           (''timeSlider'', story_timeSlider)]"


definition viewpoint_slide :: jsval where
  "viewpoint_slide =
     JObj [(''viewpoint'', JObj [(''scale'', JNum 50000)]),
           (''timeSlider'', story_timeSlider)]"

definition layers_slide :: jsval where
  "layers_slide =
     JObj [(''layerVisibility'',
            JObj [(''layersOn'', JArr [JStr ''A'']), (''layersOff'', JArr [JStr ''B''])])]"




definition named_layer :: "string \<Rightarrow> bool \<Rightarrow> layer" where
  "named_layer t v = \<lparr>title = t, visible = v, timeInfo = None, trackInfo = JUndefined,
                       other = JStr t\<rparr>"


definition abc_world :: world where
  "abc_world =
     initial_world
       \<lparr>heap := (\<lambda>r. if r = 0 then named_layer ''A'' False
                       else if r = 1 then named_layer ''B'' True
                       else if r = 2 then named_layer ''C'' True
                       else blank_layer),
        mapLayers := [0, 1, 2],
        next_ref := 3\<rparr>"




definition loaded_world :: world where
  "loaded_world = initial_world\<lparr>choreographyData := JArr [story_slide]\<rparr>"


definition unreadable_slide :: jsval where
  "unreadable_slide =
     JObj [(''timeSlider'',
            JObj [(''timeSliderStart'', JObj [(''toString'', JNum 0)]),
                  (''timeSliderEnd'', JStr ''2024-05-01T09:00:00Z''),
                  (''timeSliderUnit'', JStr ''minutes''),
                  (''timeSliderStep'', JNum 5)])]"

definition playing_world :: world where
  "playing_world =
     initial_world
       \<lparr>timeSlider := Some \<lparr>fullTimeExtent = None, timeExtent = None, stops = None,
                             state = ''playing''\<rparr>\<rparr>"


section \<open>Facts about the model\<close>

subsection \<open>Handlers other than the viewpoint handler make no viewpoint call\<close>

lemmas prim_defs = emit_def console_error_def console_log_def sdk_def and_then_def await_def
  resolve_def set_visible_def

lemma calm_refl: "calm w w"
  by (simp add: calm_def)

lemma calm_trans: "calm a b \<Longrightarrow> calm b c \<Longrightarrow> calm a c"
  by (simp add: calm_def)

lemma invoked_toggleViewpoint: "invoked (snd (toggleViewpoint sd emb w)) = invoked w"
  by (simp add: toggleViewpoint_def prim_defs module_scope_def split: outcome.splits)

lemma calm_toggleCamera: "calm w (snd (toggleCamera sd emb w))"
  by (simp add: toggleCamera_def calm_def prim_defs split: outcome.splits)

lemma calm_toggleTimeSlider: "calm w (snd (toggleTimeSlider sd emb w))"
  by (simp add: toggleTimeSlider_def calm_def prim_defs Let_def split: outcome.splits option.splits)

lemma calm_forEach_layer: "calm w (snd (forEach_layer names v rs w))"
proof (induction rs arbitrary: w)
  case Nil
  show ?case by (simp add: calm_refl)
next
  case (Cons r rs)
  show ?case
  proof (cases "js_includes names (title (heap w r))")
    case (Thrown e)
    then show ?thesis by (simp add: calm_refl)
  next
    case (Normal b)
    let ?w1 = "if b then console_log [AStr (''Layer '' @ quoted (title (heap w r)) @ '' visibility set to ''
                           @ (if v then ''true'' else ''false''))] (set_visible r v w) else w"
    have "calm w ?w1"
      by (simp add: calm_def prim_defs)
    from calm_trans[OF this Cons.IH[of ?w1]] show ?thesis using Normal by simp
  qed
qed

lemma calm_setLayerVisibility: "calm w (snd (setLayerVisibility names v w))"
  by (simp add: setLayerVisibility_def calm_forEach_layer calm_refl split: outcome.splits)

lemma calm_toggleLayerVisibility: "calm w (snd (toggleLayerVisibility sd emb w))"
proof -
  have *: "calm w (snd (and_then (setLayerVisibility a True w) (setLayerVisibility b False)))" for a b
  proof (cases "setLayerVisibility a True w")
    case (Pair r w1)
    have s1: "calm w w1" using calm_setLayerVisibility[of w a True] Pair by simp
    show ?thesis
    proof (cases r)
      case (Normal u)
      then show ?thesis using Pair calm_trans[OF s1 calm_setLayerVisibility[of w1 b False]]
        by (simp add: and_then_def)
    next
      case (Thrown e)
      then show ?thesis using Pair s1 by (simp add: and_then_def)
    qed
  qed
  show ?thesis
    by (simp add: toggleLayerVisibility_def * calm_refl split: outcome.splits)
qed

lemma calm_try_remove: "calm w (try_remove r w)"
  by (simp add: try_remove_def calm_def prim_defs)

lemma calm_try_add: "calm w (try_add c i w)"
  by (simp add: try_add_def calm_def prim_defs)

lemma calm_clone: "calm w (snd (clone r w))"
  by (simp add: clone_def calm_def prim_defs)

lemma calm_track_catch: "calm w (snd m) \<Longrightarrow> calm w (track_catch m)"
  by (cases m; cases "fst m") (auto simp: track_catch_def calm_def prim_defs)

lemma calm_track_tail:
  "calm w (snd (and_then (sdk (LayerWhen c) w) (\<lambda>w5. (Normal (), await t w5))))"
  by (simp add: calm_def prim_defs)

lemma calm_body: "calm w (snd (applyTrackRenderer_body tr cfg w))"
proof (cases "find (\<lambda>r. JStr (title (heap w r)) = field tr ''trackLayerName'') (mapLayers w)")
  case None
  then show ?thesis
    by (simp add: applyTrackRenderer_body_def calm_refl split: outcome.splits)
next
  case (Some r)
  let ?w1 = "try_remove r w"
  have s1: "calm w ?w1" by (rule calm_try_remove)
  obtain res w2 where cl: "clone r ?w1 = (res, w2)" by (cases "clone r ?w1")
  have s2: "calm w w2" using calm_trans[OF s1 calm_clone[of ?w1 r]] cl by simp
  show ?thesis
  proof (cases res)
    case (Thrown e)
    then show ?thesis using Some cl s2
      by (simp add: applyTrackRenderer_body_def calm_refl Let_def split: outcome.splits)
  next
    case (Normal c)
    let ?w4 = "console_log [AStr ''Applying track renderer:'', AVal (field tr ''trackLayerName'')]
                 (try_add c (indexOf (mapLayers w) r) w2)"
    have s4: "calm w ?w4"
      using calm_trans[OF s2 calm_try_add[of w2 c "indexOf (mapLayers w) r"]]
      by (simp add: calm_def prim_defs)
    show ?thesis using Some cl Normal calm_trans[OF s4 calm_track_tail]
      by (simp add: applyTrackRenderer_body_def calm_refl Let_def split: outcome.splits)
  qed
qed

lemma calm_toggleTrackRenderer: "calm w (snd (toggleTrackRenderer sd emb w))"
  by (simp add: toggleTrackRenderer_def applyTrackRenderer_def calm_track_catch calm_body
      calm_refl split: outcome.splits)

lemma calm_inherited:
  "calm w (snd (returns_quietly sd emb w))" "calm w (snd (throws_TypeError n sd emb w))"
  by (simp_all add: returns_quietly_def throws_TypeError_def calm_refl)

lemma lookup_handler_cases:
  assumes "lookup_handler k = Some h"
  shows "(k, h) \<in> set choreographyHandlers \<or> (k, h) \<in> set object_prototype"
  using assms by (auto simp: lookup_handler_def split: option.splits dest: map_of_SomeD)

lemma lookup_handler_calm:
  assumes "lookup_handler k = Some h" and "k \<noteq> ''viewpoint''"
  shows "calm w (snd (h sd emb w))"
  using lookup_handler_cases[OF assms(1)]
proof
  assume "(k, h) \<in> set choreographyHandlers"
  then show ?thesis using assms(2)
    by (auto simp: choreographyHandlers_def calm_toggleCamera
        calm_toggleTimeSlider calm_toggleLayerVisibility calm_toggleTrackRenderer)
next
  assume "(k, h) \<in> set object_prototype"
  then show ?thesis
    by (auto simp: object_prototype_def calm_inherited)
qed

lemma lookup_handler_invoked:
  assumes "lookup_handler k = Some h"
  shows "invoked (snd (h sd emb w)) = invoked w"
proof (cases "k = ''viewpoint''")
  case True
  then have "h = toggleViewpoint" using assms
    by (simp add: lookup_handler_def choreographyHandlers_def)
  then show ?thesis by (simp add: invoked_toggleViewpoint)
next
  case False
  from lookup_handler_calm[OF assms False] show ?thesis by (simp add: calm_def)
qed

lemma lookup_simps:
  "lookup_handler ''camera'' = Some toggleCamera"
  "lookup_handler ''timeSlider'' = Some toggleTimeSlider"
  "lookup_handler ''viewpoint'' = Some toggleViewpoint"
  "lookup_handler ''layerVisibility'' = Some toggleLayerVisibility"
  "lookup_handler ''trackRenderer'' = Some toggleTrackRenderer"
  by (simp_all add: lookup_handler_def choreographyHandlers_def)

lemma animate_entry_isolated:
  "animate_entry sd emb w kv =
     (if emb \<and> fst kv = ''viewpoint'' then w else isolated_call sd emb w kv)"
  by (auto simp: animate_entry_def isolated_call_def NON_EMBED_EXCLUDE_KEYS_def lookup_simps
      split: option.splits prod.splits outcome.splits)

lemma foldl_animate_isolated:
  "foldl (animate_entry sd emb) w es = foldl (isolated_call sd emb) w (kept emb es)"
  by (induction es arbitrary: w) (simp_all add: animate_entry_isolated kept_def)

lemma isolated_call_invoked:
  "invoked (isolated_call sd emb w kv) =
     invoked w @ (case lookup_handler (fst kv) of None \<Rightarrow> [] | Some h \<Rightarrow> [fst kv])"
proof (cases "lookup_handler (fst kv)")
  case None
  then show ?thesis by (simp add: isolated_call_def)
next
  case (Some h)
  let ?w0 = "w\<lparr>invoked := invoked w @ [fst kv]\<rparr>"
  have "invoked (snd (h sd emb ?w0)) = invoked w @ [fst kv]"
    using lookup_handler_invoked[OF Some, of sd emb ?w0] by simp
  then show ?thesis using Some
    by (cases "h sd emb ?w0"; cases "fst (h sd emb ?w0)")
       (auto simp: isolated_call_def prim_defs)
qed

lemma isolated_call_no_viewpoint:
  assumes "fst kv \<noteq> ''viewpoint''"
  shows "filter is_viewpoint_call (trace (isolated_call sd emb w kv))
           = filter is_viewpoint_call (trace w)"
proof (cases "lookup_handler (fst kv)")
  case None
  then show ?thesis by (simp add: isolated_call_def)
next
  case (Some h)
  let ?w0 = "w\<lparr>invoked := invoked w @ [fst kv]\<rparr>"
  have "filter is_viewpoint_call (trace (snd (h sd emb ?w0))) = filter is_viewpoint_call (trace w)"
    using lookup_handler_calm[OF Some assms, of ?w0 sd emb] by (simp add: calm_def)
  then show ?thesis using Some
    by (cases "h sd emb ?w0"; cases "fst (h sd emb ?w0)")
       (auto simp: isolated_call_def prim_defs)
qed

lemma foldl_isolated_invoked:
  "invoked (foldl (isolated_call sd emb) w es) =
     invoked w @ filter (\<lambda>key. case lookup_handler key of None \<Rightarrow> False | Some h \<Rightarrow> True) (map fst es)"
  by (induction es arbitrary: w) (simp_all add: isolated_call_invoked split: option.splits)

lemma foldl_isolated_no_viewpoint:
  "\<forall>kv \<in> set es. fst kv \<noteq> ''viewpoint'' \<Longrightarrow>
     filter is_viewpoint_call (trace (foldl (isolated_call sd emb) w es))
       = filter is_viewpoint_call (trace w)"
  by (induction es arbitrary: w) (simp_all add: isolated_call_no_viewpoint)


subsection \<open>The time slider handler\<close>

lemma truthy_field_object:
  assumes "get_prop cfg name = Normal x" and "truthy x"
  shows "truthy cfg"
  using assms by (cases cfg) auto

lemma timeSlider_guard_passes:
  assumes "get_prop slideData ''timeSlider'' = Normal cfg"
    and "get_prop cfg ''timeSliderStart'' = Normal T0" and "truthy T0"
    and "get_prop cfg ''timeSliderEnd'' = Normal T1" and "truthy T1"
  shows "timeSlider_guard (Some ts) slideData = Normal (Some cfg)"
  using assms truthy_field_object[OF assms(2,3)] by (simp add: timeSlider_guard_def)

lemma configure_extents_result:
  assumes "get_prop cfg ''timeSliderStart'' = Normal T0"
    and "get_prop cfg ''timeSliderEnd'' = Normal T1"
    and "get_prop cfg ''timeSliderUnit'' = Normal U"
    and "get_prop cfg ''timeSliderStep'' = Normal S"
  shows "configure_extents cfg ts =
           (if to_primitive_throws T0 \<or> to_primitive_throws T1 then Thrown (TypeError ''toString'')
            else Normal (ts\<lparr>fullTimeExtent := Some \<lparr>ext_start = Some (NewDate T0),
                                                       ext_end = Some (NewDate T1)\<rparr>,
                            timeExtent := Some \<lparr>ext_start = None, ext_end = Some (NewDate T0)\<rparr>,
                            stops := Some \<lparr>interval_value = S, interval_unit = U\<rparr>\<rparr>))"
  using assms by (simp add: configure_extents_def field_def Let_def new_Date_def)

lemma toggleTimeSlider_throws:
  assumes "timeSlider w = Some ts"
    and "timeSlider_guard (Some ts) slideData = Normal (Some cfg)"
    and "configure_extents cfg ts = Thrown e"
  shows "toggleTimeSlider slideData embedded w = (Thrown e, w)"
  using assms by (simp add: toggleTimeSlider_def)

lemma toggleTimeSlider_runs:
  assumes "timeSlider w = Some ts"
    and "timeSlider_guard (Some ts) slideData = Normal (Some cfg)"
    and "configure_extents cfg ts = Normal ts'"
  shows "toggleTimeSlider slideData embedded w =
           (if state ts = ''ready'' \<and> \<not> embedded then sdk Play (w\<lparr>timeSlider := Some ts'\<rparr>)
            else if state ts = ''ready'' then sdk Stop (w\<lparr>timeSlider := Some ts'\<rparr>)
            else (Normal (),
                  console_log [AStr ''No timeSlider configuration found in choreography.'']
                    (w\<lparr>timeSlider := Some ts'\<rparr>)))"
  using assms by (simp add: toggleTimeSlider_def Let_def)

lemma story_fields:
  "get_prop story_slide ''timeSlider'' = Normal story_timeSlider"
  "get_prop story_timeSlider ''timeSliderStart'' = Normal (JStr ''2024-05-01T06:00:00Z'')"
  "get_prop story_timeSlider ''timeSliderEnd'' = Normal (JStr ''2024-05-01T09:00:00Z'')"
  "get_prop story_timeSlider ''timeSliderUnit'' = Normal (JStr ''minutes'')"
  "get_prop story_timeSlider ''timeSliderStep'' = Normal (JNum 5)"
  by (simp_all add: story_slide_def story_timeSlider_def)

lemma story_guard:
  assumes "get_prop slideData ''timeSlider'' = Normal story_timeSlider"
  shows "timeSlider_guard (Some ts) slideData = Normal (Some story_timeSlider)"
  by (rule timeSlider_guard_passes[OF assms story_fields(2) _ story_fields(3)]) simp_all

lemma story_extents:
  "configure_extents story_timeSlider ts =
     Normal (ts\<lparr>fullTimeExtent := Some \<lparr>ext_start = Some (NewDate (JStr ''2024-05-01T06:00:00Z'')),
                                          ext_end = Some (NewDate (JStr ''2024-05-01T09:00:00Z''))\<rparr>,
               timeExtent := Some \<lparr>ext_start = None,
                                      ext_end = Some (NewDate (JStr ''2024-05-01T06:00:00Z''))\<rparr>,
               stops := Some \<lparr>interval_value = JNum 5, interval_unit = JStr ''minutes''\<rparr>\<rparr>)"
  by (simp add: configure_extents_result[OF story_fields(2) story_fields(3) story_fields(4)
        story_fields(5)])

lemma initial_slider:
  "timeSlider initial_world
     = Some \<lparr>fullTimeExtent = None, timeExtent = None, stops = None, state = ''ready''\<rparr>"
  by (simp add: initial_world_def)

lemma playing_slider:
  "timeSlider playing_world
     = Some \<lparr>fullTimeExtent = None, timeExtent = None, stops = None, state = ''playing''\<rparr>"
  by (simp add: playing_world_def)

lemma unreadable_fields:
  "get_prop unreadable_slide ''timeSlider''
     = Normal (JObj [(''timeSliderStart'', JObj [(''toString'', JNum 0)]),
                     (''timeSliderEnd'', JStr ''2024-05-01T09:00:00Z''),
                     (''timeSliderUnit'', JStr ''minutes''),
                     (''timeSliderStep'', JNum 5)])"
  "get_prop (JObj [(''timeSliderStart'', JObj [(''toString'', JNum 0)]),
                   (''timeSliderEnd'', JStr ''2024-05-01T09:00:00Z''),
                   (''timeSliderUnit'', JStr ''minutes''),
                   (''timeSliderStep'', JNum 5)]) ''timeSliderStart''
     = Normal (JObj [(''toString'', JNum 0)])"
  "get_prop (JObj [(''timeSliderStart'', JObj [(''toString'', JNum 0)]),
                   (''timeSliderEnd'', JStr ''2024-05-01T09:00:00Z''),
                   (''timeSliderUnit'', JStr ''minutes''),
                   (''timeSliderStep'', JNum 5)]) ''timeSliderEnd''
     = Normal (JStr ''2024-05-01T09:00:00Z'')"
  "get_prop (JObj [(''timeSliderStart'', JObj [(''toString'', JNum 0)]),
                   (''timeSliderEnd'', JStr ''2024-05-01T09:00:00Z''),
                   (''timeSliderUnit'', JStr ''minutes''),
                   (''timeSliderStep'', JNum 5)]) ''timeSliderUnit''
     = Normal (JStr ''minutes'')"
  "get_prop (JObj [(''timeSliderStart'', JObj [(''toString'', JNum 0)]),
                   (''timeSliderEnd'', JStr ''2024-05-01T09:00:00Z''),
                   (''timeSliderUnit'', JStr ''minutes''),
                   (''timeSliderStep'', JNum 5)]) ''timeSliderStep''
     = Normal (JNum 5)"
  by (simp_all add: unreadable_slide_def)

lemma playback_calls_simps:
  "playback_calls [] = []"
  "playback_calls (xs @ ys) = playback_calls xs @ playback_calls ys"
  "playback_calls [Call Play] = [Call Play]"
  "playback_calls [Call Stop] = [Call Stop]"
  "playback_calls [ConsoleLog a] = []"
  by (simp_all add: playback_calls_def)

lemma isolated_story:
  assumes "get_prop sd ''timeSlider'' = Normal story_timeSlider"
    and "timeSlider W = Some ts" and "state ts = ''ready''"
    and "\<not> sdk_throws W Play" and "\<not> sdk_throws W Stop"
  shows "isolated_call sd emb W (''timeSlider'', v) =
           emit (Call (if emb then Stop else Play))
             (W\<lparr>invoked := invoked W @ [''timeSlider''],
                timeSlider := Some (ts\<lparr>fullTimeExtent := Some \<lparr>ext_start = Some (NewDate (JStr ''2024-05-01T06:00:00Z'')),
                                          ext_end = Some (NewDate (JStr ''2024-05-01T09:00:00Z''))\<rparr>,
               timeExtent := Some \<lparr>ext_start = None,
                                      ext_end = Some (NewDate (JStr ''2024-05-01T06:00:00Z''))\<rparr>,
               stops := Some \<lparr>interval_value = JNum 5, interval_unit = JStr ''minutes''\<rparr>\<rparr>)\<rparr>)"
proof -
  let ?W0 = "W\<lparr>invoked := invoked W @ [''timeSlider'']\<rparr>"
  have ts0: "timeSlider ?W0 = Some ts" using assms(2) by simp
  show ?thesis
    using assms(3-5)
    by (simp add: isolated_call_def lookup_simps
        toggleTimeSlider_runs[OF ts0 story_guard[OF assms(1)] story_extents] sdk_def emit_def)
qed


lemma viewpoint_fields:
  "entries viewpoint_slide
     = Normal ([] @ (''viewpoint'', JObj [(''scale'', JNum 50000)]) # [(''timeSlider'', story_timeSlider)])"
  "get_prop viewpoint_slide ''timeSlider'' = Normal story_timeSlider"
  "get_prop viewpoint_slide ''viewpoint'' = Normal (JObj [(''scale'', JNum 50000)])"
  by (simp_all add: viewpoint_slide_def)


lemma kept_simps:
  "kept False es = es" "kept emb [] = []"
  "kept True es = filter (\<lambda>kv. fst kv \<noteq> ''viewpoint'') es"
  by (simp_all add: kept_def)


lemma initial_fields:
  "sdk_throws initial_world c = False" "sdk_rejects initial_world c = False"
  "trace initial_world = []" "pending initial_world = []" "invoked initial_world = []"
  by (simp_all add: initial_world_def)

subsection \<open>The hash listener and the layers of the map\<close>

lemma parse_abc: "parseInt ''abc'' = None"
  by (simp add: parseInt_def is_space_def is_digit_def)

lemma parse_7: "parseInt ''7'' = Some 7"
  by (simp add: parseInt_def is_space_def is_digit_def digits_val_def digit_val_def)

lemma loaded_fields:
  "choreographyData loaded_world = JArr [story_slide]" "DEBUG loaded_world = False"
  "hashIndex loaded_world = Some 0"
  by (simp_all add: loaded_world_def initial_world_def)

lemma title_pass_heap [simp]: "title (pass_heap ns v rs h r) = title (h r)"
  by (simp add: pass_heap_def)

lemma JStr_mem_image [simp]: "(JStr t \<in> JStr ` S) = (t \<in> S)"
  by auto

lemma visibility_line_cong:
  "(\<And>r. title (heap w1 r) = title (heap w r)) \<Longrightarrow> visibility_line w1 v = visibility_line w v"
  by (simp add: visibility_line_def fun_eq_iff)

lemma forEach_layer_names:
  "forEach_layer (JArr (map JStr ns)) v rs w =
     (Normal (),
      w\<lparr>heap := pass_heap ns v rs (heap w),
        trace := trace w @ map (visibility_line w v) (filter (\<lambda>r. title (heap w r) \<in> set ns) rs)\<rparr>)"
proof (induction rs arbitrary: w)
  case Nil
  have "pass_heap ns v [] (heap w) = heap w" by (simp add: pass_heap_def fun_eq_iff)
  then show ?case by simp
next
  case (Cons r rs)
  show ?case
  proof (cases "title (heap w r) \<in> set ns")
    case False
    have "pass_heap ns v (r # rs) (heap w) = pass_heap ns v rs (heap w)"
      using False by (auto simp: pass_heap_def fun_eq_iff)
    then show ?thesis using False Cons.IH[of w] by simp
  next
    case True
    let ?w1 = "console_log [AStr (''Layer '' @ quoted (title (heap w r)) @ '' visibility set to ''
                           @ (if v then ''true'' else ''false''))] (set_visible r v w)"
    have t1: "title (heap ?w1 r') = title (heap w r')" for r'
      by (simp add: prim_defs)
    have h1: "pass_heap ns v rs (heap ?w1) = pass_heap ns v (r # rs) (heap w)"
      using True by (auto simp: pass_heap_def fun_eq_iff prim_defs)
    have f1: "(\<lambda>r'. title (heap ?w1 r') \<in> set ns) = (\<lambda>r'. title (heap w r') \<in> set ns)"
      by (simp only: t1)
    have tr1: "trace ?w1 = trace w @ [visibility_line w v r]"
      by (simp add: prim_defs visibility_line_def)
    have "forEach_layer (JArr (map JStr ns)) v (r # rs) w = forEach_layer (JArr (map JStr ns)) v rs ?w1"
      using True by simp
    also have "\<dots> = (Normal (),
      ?w1\<lparr>heap := pass_heap ns v rs (heap ?w1),
        trace := trace ?w1 @ map (visibility_line ?w1 v) (filter (\<lambda>r. title (heap ?w1 r) \<in> set ns) rs)\<rparr>)"
      by (rule Cons.IH)
    also have "\<dots> = (Normal (),
      w\<lparr>heap := pass_heap ns v (r # rs) (heap w),
        trace := trace w @ map (visibility_line w v) (filter (\<lambda>r. title (heap w r) \<in> set ns) (r # rs))\<rparr>)"
      unfolding h1 tr1 visibility_line_cong[of ?w1 w, OF t1] f1 using True
      by (simp add: prim_defs)
    finally show ?thesis .
  qed
qed

lemma setLayerVisibility_names:
  "setLayerVisibility (JArr (map JStr ns)) v w =
     (Normal (),
      w\<lparr>heap := pass_heap ns v (mapLayers w) (heap w),
        trace := trace w @ map (visibility_line w v)
                             (filter (\<lambda>r. title (heap w r) \<in> set ns) (mapLayers w))\<rparr>)"
proof (cases "ns = []")
  case True
  have "pass_heap [] v (mapLayers w) (heap w) = heap w" by (simp add: pass_heap_def fun_eq_iff)
  then show ?thesis using True by (simp add: setLayerVisibility_def)
next
  case False
  then show ?thesis by (simp add: setLayerVisibility_def forEach_layer_names)
qed

lemma layers_fields:
  "get_prop layers_slide ''layerVisibility''
     = Normal (JObj [(''layersOn'', JArr [JStr ''A'']), (''layersOff'', JArr [JStr ''B''])])"
  "get_prop (JObj [(''layersOn'', JArr [JStr ''A'']), (''layersOff'', JArr [JStr ''B''])]) ''layersOn''
     = Normal (JArr (map JStr [''A'']))"
  "get_prop (JObj [(''layersOn'', JArr [JStr ''A'']), (''layersOff'', JArr [JStr ''B''])]) ''layersOff''
     = Normal (JArr (map JStr [''B'']))"
  by (simp_all add: layers_slide_def)

lemma abc_fields:
  "mapLayers abc_world = [0, 1, 2]" "trace abc_world = []"
  "heap abc_world 0 = named_layer ''A'' False"
  "heap abc_world 1 = named_layer ''B'' True"
  "heap abc_world (Suc 0) = named_layer ''B'' True"
  "heap abc_world 2 = named_layer ''C'' True"
  by (simp_all add: abc_world_def initial_world_def)

lemma parse_0abc: "parseInt ''0abc'' = Some 0"
  by (simp add: parseInt_def is_space_def is_digit_def digits_val_def digit_val_def)

subsection \<open>The track renderer\<close>

















section \<open>The properties\<close>

text \<open>
  Claim C1 against the code. The slide keeps its start time under
  \<^verbatim>\<open>timeSlider.timeSliderStart\<close>, where \<^verbatim>\<open>toggleTimeSlider\<close> and
  \<^verbatim>\<open>configureTimeSlider\<close> read it; the click listener reads \<^verbatim>\<open>config.timeSliderStart\<close>.
  With such a slide loaded and current, a click ends the time extent at
  \<^verbatim>\<open>new Date(undefined)\<close>, not at the slide's start; \<^verbatim>\<open>play\<close> is called; and the button's
  \<^verbatim>\<open>disabled\<close> flag is not touched (\<^verbatim>\<open>updateResetButtonState\<close> is never called).
\<close>

theorem reset_click_reads_missing_field:
  "field story_timeSlider ''timeSliderStart'' = JStr ''2024-05-01T06:00:00Z''
   \<and> fst (on_reset_click loaded_world) = Normal ()
   \<and> timeSlider (snd (on_reset_click loaded_world)) =
       Some \<lparr>fullTimeExtent = None,
             timeExtent = Some \<lparr>ext_start = None, ext_end = Some (NewDate JUndefined)\<rparr>,
             stops = None, state = ''ready''\<rparr>
   \<and> trace (snd (on_reset_click loaded_world)) = [Call Play]
   \<and> resetButton (snd (on_reset_click loaded_world)) = resetButton loaded_world"
  by (simp add: on_reset_click_def loaded_world_def initial_world_def story_slide_def
      story_timeSlider_def field_def new_Date_def prim_defs log_def)

text \<open>
  Claim C2 against the code: \<^verbatim>\<open>toggleCamera\<close> evaluates \<^verbatim>\<open>Camera.fromJSON(cameraData)\<close>,
  and the module imports \<^verbatim>\<open>Viewpoint\<close> only. For a slide with a camera the handler throws a
  ReferenceError before it reaches \<^verbatim>\<open>goTo\<close>; the dispatcher catches and logs it, no
  view transition is requested or left pending, and the slide's other key is handled.
\<close>

theorem camera_handler_throws_ReferenceError:
  "toggleCamera camera_slide embedded w = (Thrown (ReferenceError ''Camera''), w)
   \<and> fst (slideAnimation camera_slide False initial_world) = Normal ()
   \<and> trace (snd (slideAnimation camera_slide False initial_world)) =
       [ConsoleError [AStr (''Error processing '' @ quoted ''camera'' @ '':''),
                      AErr (ReferenceError ''Camera'')],
        Call Play]
   \<and> pending (snd (slideAnimation camera_slide False initial_world)) = []"
proof -
  have a: "toggleCamera camera_slide emb w = (Thrown (ReferenceError ''Camera''), w)" for emb w
    by (simp add: toggleCamera_def camera_slide_def resolve_def module_scope_def and_then_def)
  have e: "entries camera_slide = Normal [(''camera'', JObj [(''heading'', JNum 90), (''tilt'', JNum 45)]), (''timeSlider'', story_timeSlider)]"
    by (simp add: camera_slide_def)
  have t: "get_prop camera_slide ''timeSlider'' = Normal story_timeSlider"
    by (simp add: camera_slide_def)
  let ?w0 = "initial_world\<lparr>invoked := [''camera'']\<rparr>"
  let ?wl = "console_error [AStr (''Error processing '' @ quoted ''camera'' @ '':''),
                            AErr (ReferenceError ''Camera'')] ?w0"
  have c: "isolated_call camera_slide False initial_world
             (''camera'', JObj [(''heading'', JNum 90), (''tilt'', JNum 45)]) = ?wl"
    by (simp add: isolated_call_def lookup_simps a initial_fields)
  have i: "isolated_call camera_slide False ?wl (''timeSlider'', story_timeSlider) =
        emit (Call Play)
         (?wl\<lparr>invoked := invoked ?wl @ [''timeSlider''],
              timeSlider := Some (\<lparr>fullTimeExtent = None, timeExtent = None, stops = None, state = ''ready''\<rparr>
                \<lparr>fullTimeExtent := Some \<lparr>ext_start = Some (NewDate (JStr ''2024-05-01T06:00:00Z'')),
                                          ext_end = Some (NewDate (JStr ''2024-05-01T09:00:00Z''))\<rparr>,
               timeExtent := Some \<lparr>ext_start = None,
                                      ext_end = Some (NewDate (JStr ''2024-05-01T06:00:00Z''))\<rparr>,
               stops := Some \<lparr>interval_value = JNum 5, interval_unit = JStr ''minutes''\<rparr>\<rparr>)\<rparr>)"
    using isolated_story[where sd = camera_slide and W = ?wl and emb = False
        and ts = "\<lparr>fullTimeExtent = None, timeExtent = None, stops = None, state = ''ready''\<rparr>",
        OF t]
    by (simp add: console_error_def emit_def initial_slider initial_fields)
  have run: "slideAnimation camera_slide False initial_world =
               (Normal (), isolated_call camera_slide False ?wl (''timeSlider'', story_timeSlider))"
    by (simp add: slideAnimation_def e c animate_entry_isolated)
  have f: "fst (slideAnimation camera_slide False initial_world) = Normal ()"
    by (simp add: run)
  have tr: "trace (snd (slideAnimation camera_slide False initial_world)) =
       [ConsoleError [AStr (''Error processing '' @ quoted ''camera'' @ '':''),
                      AErr (ReferenceError ''Camera'')],
        Call Play]"
    by (simp only: run snd_conv i) (simp add: console_error_def emit_def initial_fields)
  have p: "pending (snd (slideAnimation camera_slide False initial_world)) = []"
    by (simp only: run snd_conv i) (simp add: console_error_def emit_def initial_fields)
  show ?thesis
    by (intro conjI a f tr p)
qed

text \<open>
  Claim C3 against the code. When the fetch fails the error is logged and the sequence
  stays empty, but \<^verbatim>\<open>configureTimeSlider\<close> then reads \<^verbatim>\<open>choreographyData[0].timeSlider\<close>
  with no slide 0: in a document that has a time slider it throws a TypeError, which
  rejects \<^verbatim>\<open>initMapAnimator\<close> before \<^verbatim>\<open>setupResetButton\<close> has run.
\<close>

theorem failed_load_breaks_initialisation:
  "fst (initMapAnimator ''choreography.json'' initial_world) = Thrown (TypeError ''timeSlider'')
   \<and> choreographyData (snd (initMapAnimator ''choreography.json'' initial_world)) = JArr []
   \<and> hashListener (snd (initMapAnimator ''choreography.json'' initial_world)) = True
   \<and> resetListener (snd (initMapAnimator ''choreography.json'' initial_world)) = False
   \<and> trace (snd (initMapAnimator ''choreography.json'' initial_world)) =
       [ConsoleError [AStr ''Failed to load choreography:'', AErr (FetchError ''choreography.json'')]]"
  by (simp add: initMapAnimator_def configureTimeSlider_def setupHashListener_def
      loadChoreography_def initial_world_def and_then_def timeSlider_guard_def
      console_error_def emit_def)

text \<open>
  Claim C4, as amended. When \<^verbatim>\<open>parseInt\<close> reads the fragment as \<^verbatim>\<open>NaN\<close>, or as a number outside
  the loaded array, the listener returns normally and calls no handler; the map, the time
  slider and the loaded sequence are as before. The state is not left unchanged: the
  module's \<^verbatim>\<open>hashIndex\<close> has been overwritten with what \<^verbatim>\<open>parseInt\<close> gave (\<^verbatim>\<open>NaN\<close> or the
  index out of range), and in debug mode two lines have gone to the console.
\<close>

theorem invalid_hash_only_moves_hashIndex:
  assumes "choreographyData w = JArr slides"
    and "case parseInt (drop 1 hash) of None \<Rightarrow> True | Some n \<Rightarrow> n < 0 \<or> int (length slides) \<le> n"
  shows "on_hashchange hash w =
           (Normal (),
            log [AStr ''No valid hash index found.'']
              ((log [AStr (''Hash changed to: '' @ hash)] w)\<lparr>hashIndex := parseInt (drop 1 hash)\<rparr>))"
proof (cases "parseInt (drop 1 hash)")
  case None
  then show ?thesis by (simp add: on_hashchange_def Let_def)
next
  case (Some n)
  with assms(2) have "n < 0 \<or> int (length slides) \<le> n" by simp
  then have "get_index (JArr slides) (Some n) = Normal JUndefined" by auto
  moreover have "choreographyData (log a w) = choreographyData w" for a
    by (simp add: log_def console_log_def emit_def)
  ultimately show ?thesis using Some assms(1)
    by (simp add: on_hashchange_def Let_def)
qed

theorem invalid_hash_only_moves_hashIndex_witness:
  "on_hashchange ''#abc'' loaded_world = (Normal (), loaded_world\<lparr>hashIndex := None\<rparr>)
   \<and> on_hashchange ''#7'' loaded_world = (Normal (), loaded_world\<lparr>hashIndex := Some 7\<rparr>)"
proof -
  have h1: "case parseInt (drop 1 ''#abc'') of None \<Rightarrow> True | Some n \<Rightarrow> n < 0 \<or> int (length [story_slide]) \<le> n"
    by (simp add: parse_abc)
  have h2: "case parseInt (drop 1 ''#7'') of None \<Rightarrow> True | Some n \<Rightarrow> n < 0 \<or> int (length [story_slide]) \<le> n"
    by (simp add: parse_7)
  note r1 = invalid_hash_only_moves_hashIndex[where w = loaded_world and slides = "[story_slide]"
      and hash = "''#abc''", OF loaded_fields(1) h1]
  note r2 = invalid_hash_only_moves_hashIndex[where w = loaded_world and slides = "[story_slide]"
      and hash = "''#7''", OF loaded_fields(1) h2]
  have q: "log a loaded_world = loaded_world" "log a (loaded_world\<lparr>hashIndex := x\<rparr>) = loaded_world\<lparr>hashIndex := x\<rparr>" for a x
    by (simp_all add: log_def loaded_fields)
  show ?thesis
    by (simp only: r1 r2 q) (simp add: parse_abc parse_7)
qed

text \<open>
  Claim C4 as stated fails: with slide 0 loaded and current, the fragments \<^verbatim>\<open>#abc\<close> and
  \<^verbatim>\<open>#7\<close> move \<^verbatim>\<open>hashIndex\<close> from 0 to \<^verbatim>\<open>NaN\<close> and to 7. And a fragment that is not a number
  is not always read as \<^verbatim>\<open>NaN\<close>: \<^verbatim>\<open>parseInt\<close> reads \<^verbatim>\<open>#0abc\<close> as 0, and slide 0 is dispatched.
\<close>

theorem invalid_hash_changes_state_counterexample:
  "hashIndex loaded_world = Some 0
   \<and> hashIndex (snd (on_hashchange ''#abc'' loaded_world)) = None
   \<and> hashIndex (snd (on_hashchange ''#7'' loaded_world)) = Some 7
   \<and> snd (on_hashchange ''#abc'' loaded_world) \<noteq> loaded_world
   \<and> invoked loaded_world = []
   \<and> invoked (snd (on_hashchange ''#0abc'' loaded_world)) = [''timeSlider'']
   \<and> trace (snd (on_hashchange ''#0abc'' loaded_world)) = [Call Play]"
proof -
  have a: "hashIndex (snd (on_hashchange ''#abc'' loaded_world)) = None"
    by (simp add: on_hashchange_def Let_def parse_abc log_def loaded_fields)
  have b: "hashIndex (snd (on_hashchange ''#7'' loaded_world)) = Some 7"
    by (simp add: on_hashchange_def Let_def parse_7 log_def loaded_fields story_slide_def)
  have c: "snd (on_hashchange ''#abc'' loaded_world) \<noteq> loaded_world"
  proof
    assume "snd (on_hashchange ''#abc'' loaded_world) = loaded_world"
    then have "hashIndex (snd (on_hashchange ''#abc'' loaded_world)) = hashIndex loaded_world"
      by simp
    then show False by (simp add: a loaded_fields)
  qed
  let ?w2 = "loaded_world\<lparr>hashIndex := Some 0\<rparr>"
  have f: "timeSlider ?w2 = Some \<lparr>fullTimeExtent = None, timeExtent = None, stops = None, state = ''ready''\<rparr>"
    "sdk_throws ?w2 x = False" "invoked ?w2 = []" "trace ?w2 = []" "isEmbedded ?w2 = False"
    "invoked loaded_world = []" "sdk_throws loaded_world x = False"
    "trace loaded_world = []" for x
    by (simp_all add: loaded_world_def initial_world_def)
  have e: "entries story_slide = Normal [(''timeSlider'', story_timeSlider)]"
    by (simp add: story_slide_def)
  have i: "isolated_call story_slide False ?w2 (''timeSlider'', story_timeSlider) =
        emit (Call Play)
         (?w2\<lparr>invoked := invoked ?w2 @ [''timeSlider''],
              timeSlider := Some (\<lparr>fullTimeExtent = None, timeExtent = None, stops = None, state = ''ready''\<rparr>
                \<lparr>fullTimeExtent := Some \<lparr>ext_start = Some (NewDate (JStr ''2024-05-01T06:00:00Z'')),
                                          ext_end = Some (NewDate (JStr ''2024-05-01T09:00:00Z''))\<rparr>,
               timeExtent := Some \<lparr>ext_start = None,
                                      ext_end = Some (NewDate (JStr ''2024-05-01T06:00:00Z''))\<rparr>,
               stops := Some \<lparr>interval_value = JNum 5, interval_unit = JStr ''minutes''\<rparr>\<rparr>)\<rparr>)"
    using isolated_story[where sd = story_slide and W = ?w2 and emb = False
        and ts = "\<lparr>fullTimeExtent = None, timeExtent = None, stops = None, state = ''ready''\<rparr>"
        and v = story_timeSlider, OF story_fields(1) f(1)]
    by (simp add: f)
  have s: "slideAnimation story_slide False ?w2 =
             (Normal (), isolated_call story_slide False ?w2 (''timeSlider'', story_timeSlider))"
    by (simp add: slideAnimation_def e animate_entry_isolated)
  have t: "truthy story_slide"
    by (simp add: story_slide_def)
  have h: "on_hashchange ''#0abc'' loaded_world =
             (Normal (), isolated_call story_slide False ?w2 (''timeSlider'', story_timeSlider))"
    by (simp add: on_hashchange_def Let_def parse_0abc log_def loaded_fields t f(5) s)
  have d1: "invoked (snd (on_hashchange ''#0abc'' loaded_world)) = [''timeSlider'']"
    by (simp only: h snd_conv i) (simp add: emit_def f)
  have d2: "trace (snd (on_hashchange ''#0abc'' loaded_world)) = [Call Play]"
    by (simp only: h snd_conv i) (simp add: emit_def f)
  show ?thesis
    by (intro conjI loaded_fields(3) a b c f(6) d1 d2)
qed



text \<open>
  Claim C6. With \<^verbatim>\<open>embedded\<close> true, the dispatcher leaves exactly the world reached by calling,
  in the order of the slide's keys, the handler of every key other than \<^verbatim>\<open>viewpoint\<close> that has
  one; it adds no call of \<^verbatim>\<open>Viewpoint.fromJSON\<close> and no \<^verbatim>\<open>goTo\<close> to a viewpoint, whatever other
  keys the slide has; and the handlers it has called are those of the slide's keys, other
  than \<^verbatim>\<open>viewpoint\<close>, that have a registered handler.
\<close>

theorem embedded_skips_viewpoint:
  assumes "entries slideData = Normal es"
  shows "slideAnimation slideData True w =
           (Normal (),
            foldl (isolated_call slideData True) w (filter (\<lambda>kv. fst kv \<noteq> ''viewpoint'') es))
       \<and> filter is_viewpoint_call (trace (snd (slideAnimation slideData True w)))
           = filter is_viewpoint_call (trace w)
       \<and> invoked (snd (slideAnimation slideData True w))
           = invoked w @ filter (\<lambda>key. lookup_handler key \<noteq> None \<and> key \<noteq> ''viewpoint'') (map fst es)"
proof -
  let ?es = "filter (\<lambda>kv. fst kv \<noteq> ''viewpoint'') es"
  have run: "slideAnimation slideData True w = (Normal (), foldl (isolated_call slideData True) w ?es)"
    by (simp only: slideAnimation_def assms outcome.case foldl_animate_isolated kept_simps)
  have nv: "\<forall>kv \<in> set ?es. fst kv \<noteq> ''viewpoint''"
    by simp
  have quiet: "filter is_viewpoint_call (trace (foldl (isolated_call slideData True) w ?es))
                 = filter is_viewpoint_call (trace w)"
    by (rule foldl_isolated_no_viewpoint[OF nv])
  have keys: "filter (\<lambda>key. case lookup_handler key of None \<Rightarrow> False | Some h \<Rightarrow> True) (map fst ?es)
                = filter (\<lambda>key. lookup_handler key \<noteq> None \<and> key \<noteq> ''viewpoint'') (map fst es)"
    by (induction es) (auto split: option.splits)
  have inv: "invoked (foldl (isolated_call slideData True) w ?es)
               = invoked w @ filter (\<lambda>key. lookup_handler key \<noteq> None \<and> key \<noteq> ''viewpoint'') (map fst es)"
    by (simp only: foldl_isolated_invoked keys)
  show ?thesis
    by (simp only: run snd_conv quiet inv)
qed

theorem embedded_skips_viewpoint_witness:
  "trace (snd (slideAnimation viewpoint_slide True initial_world)) = [Call Stop]
   \<and> pending (snd (slideAnimation viewpoint_slide True initial_world)) = []
   \<and> invoked (snd (slideAnimation viewpoint_slide True initial_world)) = [''timeSlider'']
   \<and> timeSlider (snd (slideAnimation viewpoint_slide True initial_world)) =
     Some \<lparr>fullTimeExtent = Some \<lparr>ext_start = Some (NewDate (JStr ''2024-05-01T06:00:00Z'')),
                                   ext_end = Some (NewDate (JStr ''2024-05-01T09:00:00Z''))\<rparr>,
           timeExtent = Some \<lparr>ext_start = None,
                               ext_end = Some (NewDate (JStr ''2024-05-01T06:00:00Z''))\<rparr>,
           stops = Some \<lparr>interval_value = JNum 5, interval_unit = JStr ''minutes''\<rparr>,
           state = ''ready''\<rparr>"
proof -
  have es: "entries viewpoint_slide = Normal [(''viewpoint'', JObj [(''scale'', JNum 50000)]),
                                              (''timeSlider'', story_timeSlider)]"
    by (simp add: viewpoint_slide_def)
  note r = embedded_skips_viewpoint[where slideData = viewpoint_slide and w = initial_world, OF es]
  have i: "isolated_call viewpoint_slide True initial_world (''timeSlider'', story_timeSlider) =
        emit (Call Stop)
         (initial_world\<lparr>invoked := invoked initial_world @ [''timeSlider''],
              timeSlider := Some (\<lparr>fullTimeExtent = None, timeExtent = None, stops = None, state = ''ready''\<rparr>
                \<lparr>fullTimeExtent := Some \<lparr>ext_start = Some (NewDate (JStr ''2024-05-01T06:00:00Z'')),
                                          ext_end = Some (NewDate (JStr ''2024-05-01T09:00:00Z''))\<rparr>,
               timeExtent := Some \<lparr>ext_start = None,
                                      ext_end = Some (NewDate (JStr ''2024-05-01T06:00:00Z''))\<rparr>,
               stops := Some \<lparr>interval_value = JNum 5, interval_unit = JStr ''minutes''\<rparr>\<rparr>)\<rparr>)"
    using isolated_story[where sd = viewpoint_slide and W = initial_world and emb = True
        and ts = "\<lparr>fullTimeExtent = None, timeExtent = None, stops = None, state = ''ready''\<rparr>",
        OF viewpoint_fields(2) initial_slider]
    by (simp add: initial_fields)
  have w: "snd (slideAnimation viewpoint_slide True initial_world) =
             isolated_call viewpoint_slide True initial_world (''timeSlider'', story_timeSlider)"
    using conjunct1[OF r] by simp
  show ?thesis
    by (simp only: w i) (simp add: emit_def initial_fields)
qed

text \<open>
  Claim C7, as amended. Take a slide whose \<^verbatim>\<open>timeSlider\<close> config has a truthy start \<^verbatim>\<open>T0\<close> and
  end \<^verbatim>\<open>T1\<close>, unit \<^verbatim>\<open>U\<close> and step \<^verbatim>\<open>S\<close>, and a time slider. When \<^verbatim>\<open>new Date\<close> converts both
  \<^verbatim>\<open>T0\<close> and \<^verbatim>\<open>T1\<close>, the handler leaves the slider with full extent
  \<^verbatim>\<open>[new Date(T0), new Date(T1)]\<close>, current extent \<^verbatim>\<open>[null, new Date(T0)]\<close> and stop interval
  \<^verbatim>\<open>{value: S, unit: U}\<close>, its other properties as before. When \<^verbatim>\<open>new Date\<close> cannot convert one of
  them (an object with a \<^verbatim>\<open>toString\<close> entry of its own, or an array holding one), the handler
  throws a \<^verbatim>\<open>TypeError\<close> before it assigns anything.
\<close>

theorem timeSlider_handler_sets_extents:
  assumes "timeSlider w = Some ts"
    and "get_prop slideData ''timeSlider'' = Normal cfg"
    and "get_prop cfg ''timeSliderStart'' = Normal T0" and "truthy T0"
    and "get_prop cfg ''timeSliderEnd'' = Normal T1" and "truthy T1"
    and "get_prop cfg ''timeSliderUnit'' = Normal U"
    and "get_prop cfg ''timeSliderStep'' = Normal S"
  shows "if to_primitive_throws T0 \<or> to_primitive_throws T1
         then toggleTimeSlider slideData embedded w = (Thrown (TypeError ''toString''), w)
         else timeSlider (snd (toggleTimeSlider slideData embedded w)) =
                Some (ts\<lparr>fullTimeExtent := Some \<lparr>ext_start = Some (NewDate T0),
                                                     ext_end = Some (NewDate T1)\<rparr>,
                         timeExtent := Some \<lparr>ext_start = None, ext_end = Some (NewDate T0)\<rparr>,
                         stops := Some \<lparr>interval_value = S, interval_unit = U\<rparr>\<rparr>)"
proof -
  have g: "timeSlider_guard (Some ts) slideData = Normal (Some cfg)"
    by (rule timeSlider_guard_passes[OF assms(2-6)])
  note c = configure_extents_result[OF assms(3) assms(5) assms(7) assms(8), of ts]
  show ?thesis
  proof (cases "to_primitive_throws T0 \<or> to_primitive_throws T1")
    case True
    then have "configure_extents cfg ts = Thrown (TypeError ''toString'')"
      by (simp only: c if_True)
    from toggleTimeSlider_throws[OF assms(1) g this] True show ?thesis
      by (simp only: if_True)
  next
    case False
    then have "configure_extents cfg ts =
        Normal (ts\<lparr>fullTimeExtent := Some \<lparr>ext_start = Some (NewDate T0),
                                                     ext_end = Some (NewDate T1)\<rparr>,
                         timeExtent := Some \<lparr>ext_start = None, ext_end = Some (NewDate T0)\<rparr>,
                         stops := Some \<lparr>interval_value = S, interval_unit = U\<rparr>\<rparr>)"
      by (simp only: c if_False)
    from toggleTimeSlider_runs[OF assms(1) g this, of embedded] False show ?thesis
      by (simp add: prim_defs)
  qed
qed

theorem timeSlider_handler_sets_extents_witness:
  "timeSlider (snd (toggleTimeSlider story_slide False initial_world)) =
     Some \<lparr>fullTimeExtent = Some \<lparr>ext_start = Some (NewDate (JStr ''2024-05-01T06:00:00Z'')),
                                   ext_end = Some (NewDate (JStr ''2024-05-01T09:00:00Z''))\<rparr>,
           timeExtent = Some \<lparr>ext_start = None,
                               ext_end = Some (NewDate (JStr ''2024-05-01T06:00:00Z''))\<rparr>,
           stops = Some \<lparr>interval_value = JNum 5, interval_unit = JStr ''minutes''\<rparr>,
           state = ''ready''\<rparr>
   \<and> toggleTimeSlider unreadable_slide False initial_world
       = (Thrown (TypeError ''toString''), initial_world)"
proof -
  have t0: "truthy (JStr ''2024-05-01T06:00:00Z'')" and t1: "truthy (JStr ''2024-05-01T09:00:00Z'')"
    and t2: "truthy (JObj [(''toString'', JNum 0)])"
    by simp_all
  note r = timeSlider_handler_sets_extents[where w = initial_world and embedded = False
      and slideData = story_slide and cfg = story_timeSlider
      and ?T0.0 = "JStr ''2024-05-01T06:00:00Z''" and ?T1.0 = "JStr ''2024-05-01T09:00:00Z''"
      and U = "JStr ''minutes''" and S = "JNum 5",
      OF initial_slider story_fields(1) story_fields(2) t0 story_fields(3) t1 story_fields(4)
         story_fields(5)]
  note u = timeSlider_handler_sets_extents[where w = initial_world and embedded = False
      and slideData = unreadable_slide
      and ?T0.0 = "JObj [(''toString'', JNum 0)]" and ?T1.0 = "JStr ''2024-05-01T09:00:00Z''"
      and U = "JStr ''minutes''" and S = "JNum 5",
      OF initial_slider unreadable_fields(1) unreadable_fields(2) t2 unreadable_fields(3) t1
         unreadable_fields(4) unreadable_fields(5)]
  have a: "timeSlider (snd (toggleTimeSlider story_slide False initial_world)) =
     Some \<lparr>fullTimeExtent = Some \<lparr>ext_start = Some (NewDate (JStr ''2024-05-01T06:00:00Z'')),
                                   ext_end = Some (NewDate (JStr ''2024-05-01T09:00:00Z''))\<rparr>,
           timeExtent = Some \<lparr>ext_start = None,
                               ext_end = Some (NewDate (JStr ''2024-05-01T06:00:00Z''))\<rparr>,
           stops = Some \<lparr>interval_value = JNum 5, interval_unit = JStr ''minutes''\<rparr>,
           state = ''ready''\<rparr>"
    using r by simp
  have b: "toggleTimeSlider unreadable_slide False initial_world
       = (Thrown (TypeError ''toString''), initial_world)"
    using u by simp
  show ?thesis
    by (intro conjI a b)
qed

text \<open>
  Claim C7 as stated fails: the start \<^verbatim>\<open>{toString: 0}\<close> is truthy, and with it the handler
  throws and leaves the slider's extents and stops unset.
\<close>

theorem timeSlider_handler_unreadable_start_counterexample:
  "truthy (JObj [(''toString'', JNum 0)])
   \<and> fst (toggleTimeSlider unreadable_slide False initial_world) = Thrown (TypeError ''toString'')
   \<and> timeSlider (snd (toggleTimeSlider unreadable_slide False initial_world)) =
       Some \<lparr>fullTimeExtent = None, timeExtent = None, stops = None, state = ''ready''\<rparr>"
proof -
  have g: "timeSlider_guard (Some ts) unreadable_slide
             = Normal (Some (JObj [(''timeSliderStart'', JObj [(''toString'', JNum 0)]),
                     (''timeSliderEnd'', JStr ''2024-05-01T09:00:00Z''),
                     (''timeSliderUnit'', JStr ''minutes''),
                     (''timeSliderStep'', JNum 5)]))" for ts
    by (rule timeSlider_guard_passes[OF unreadable_fields(1) unreadable_fields(2) _
          unreadable_fields(3)]) simp_all
  have c: "configure_extents (JObj [(''timeSliderStart'', JObj [(''toString'', JNum 0)]),
                     (''timeSliderEnd'', JStr ''2024-05-01T09:00:00Z''),
                     (''timeSliderUnit'', JStr ''minutes''),
                     (''timeSliderStep'', JNum 5)]) ts = Thrown (TypeError ''toString'')" for ts
    by (simp add: configure_extents_result[OF unreadable_fields(2) unreadable_fields(3)
          unreadable_fields(4) unreadable_fields(5)])
  have "toggleTimeSlider unreadable_slide False initial_world
          = (Thrown (TypeError ''toString''), initial_world)"
    by (rule toggleTimeSlider_throws[OF initial_slider g c])
  then show ?thesis by (simp add: initial_slider)
qed

text \<open>
  Claim C8, as amended. Take an invocation of the handler with a time slider and a truthy
  start and end. \<^verbatim>\<open>play()\<close> is called, once, exactly when \<^verbatim>\<open>new Date\<close> converts both dates, the
  slider's state is \<^verbatim>\<open>ready\<close> and \<^verbatim>\<open>embedded\<close> is false; \<^verbatim>\<open>stop()\<close> is called, once, exactly when
  both dates convert, the state is \<^verbatim>\<open>ready\<close> and \<^verbatim>\<open>embedded\<close> is true; in every other case (a
  state other than \<^verbatim>\<open>ready\<close>, or a date that does not convert) the handler calls neither.
\<close>

theorem timeSlider_handler_play_stop:
  assumes "timeSlider w = Some ts"
    and "get_prop slideData ''timeSlider'' = Normal cfg"
    and "get_prop cfg ''timeSliderStart'' = Normal T0" and "truthy T0"
    and "get_prop cfg ''timeSliderEnd'' = Normal T1" and "truthy T1"
  shows "playback_calls (trace (snd (toggleTimeSlider slideData embedded w))) =
           playback_calls (trace w)
           @ (if to_primitive_throws T0 \<or> to_primitive_throws T1 then []
              else if state ts = ''ready'' \<and> \<not> embedded then [Call Play]
              else if state ts = ''ready'' \<and> embedded then [Call Stop]
              else [])"
proof -
  have g: "timeSlider_guard (Some ts) slideData = Normal (Some cfg)"
    by (rule timeSlider_guard_passes[OF assms(2-6)])
  have u: "get_prop cfg ''timeSliderUnit'' = Normal (field cfg ''timeSliderUnit'')"
    and s: "get_prop cfg ''timeSliderStep'' = Normal (field cfg ''timeSliderStep'')"
    using truthy_field_object[OF assms(3,4)] by (cases cfg; simp add: field_def)+
  note c = configure_extents_result[OF assms(3) assms(5) u s, of ts]
  show ?thesis
  proof (cases "to_primitive_throws T0 \<or> to_primitive_throws T1")
    case True
    then have "configure_extents cfg ts = Thrown (TypeError ''toString'')"
      by (simp only: c if_True)
    from toggleTimeSlider_throws[OF assms(1) g this, of embedded] True show ?thesis
      by simp
  next
    case False
    then have "configure_extents cfg ts =
        Normal (ts\<lparr>fullTimeExtent := Some \<lparr>ext_start = Some (NewDate T0),
                                                     ext_end = Some (NewDate T1)\<rparr>,
                         timeExtent := Some \<lparr>ext_start = None, ext_end = Some (NewDate T0)\<rparr>,
                         stops := Some \<lparr>interval_value = field cfg ''timeSliderStep'',
                                         interval_unit = field cfg ''timeSliderUnit''\<rparr>\<rparr>)"
      by (simp only: c if_False)
    from toggleTimeSlider_runs[OF assms(1) g this, of embedded] False show ?thesis
      by (simp add: prim_defs playback_calls_simps)
  qed
qed

theorem timeSlider_handler_play_stop_witness:
  "playback_calls (trace (snd (toggleTimeSlider story_slide False initial_world))) = [Call Play]
   \<and> playback_calls (trace (snd (toggleTimeSlider story_slide True initial_world))) = [Call Stop]
   \<and> playback_calls (trace (snd (toggleTimeSlider story_slide False playing_world))) = []
   \<and> playback_calls (trace (snd (toggleTimeSlider unreadable_slide False initial_world))) = []"
proof -
  have t0: "truthy (JStr ''2024-05-01T06:00:00Z'')" and t1: "truthy (JStr ''2024-05-01T09:00:00Z'')"
    and t2: "truthy (JObj [(''toString'', JNum 0)])"
    by simp_all
  have tr: "trace initial_world = []" "trace playing_world = []"
    by (simp_all add: initial_world_def playing_world_def)
  note r = timeSlider_handler_play_stop[where w = initial_world
      and slideData = story_slide and cfg = story_timeSlider
      and ?T0.0 = "JStr ''2024-05-01T06:00:00Z''" and ?T1.0 = "JStr ''2024-05-01T09:00:00Z''",
      OF initial_slider story_fields(1) story_fields(2) t0 story_fields(3) t1]
  note p = timeSlider_handler_play_stop[where w = playing_world and embedded = False
      and slideData = story_slide and cfg = story_timeSlider
      and ?T0.0 = "JStr ''2024-05-01T06:00:00Z''" and ?T1.0 = "JStr ''2024-05-01T09:00:00Z''",
      OF playing_slider story_fields(1) story_fields(2) t0 story_fields(3) t1]
  note u = timeSlider_handler_play_stop[where w = initial_world and embedded = False
      and slideData = unreadable_slide
      and ?T0.0 = "JObj [(''toString'', JNum 0)]" and ?T1.0 = "JStr ''2024-05-01T09:00:00Z''",
      OF initial_slider unreadable_fields(1) unreadable_fields(2) t2 unreadable_fields(3) t1]
  have a: "playback_calls (trace (snd (toggleTimeSlider story_slide False initial_world))) = [Call Play]"
    using r[of False] by (simp add: tr playback_calls_simps)
  have b: "playback_calls (trace (snd (toggleTimeSlider story_slide True initial_world))) = [Call Stop]"
    using r[of True] by (simp add: tr playback_calls_simps)
  have c: "playback_calls (trace (snd (toggleTimeSlider story_slide False playing_world))) = []"
    using p by (simp add: tr playback_calls_simps)
  have d: "playback_calls (trace (snd (toggleTimeSlider unreadable_slide False initial_world))) = []"
    using u by (simp add: tr playback_calls_simps)
  show ?thesis
    by (intro conjI a b c d)
qed

text \<open>
  Claim C8 as stated fails: on a slider that is playing the handler does not call
  \<^verbatim>\<open>stop()\<close>, embedded or not.
\<close>

theorem timeSlider_handler_not_stopped_counterexample:
  "Call Stop \<notin> set (trace (snd (toggleTimeSlider story_slide False playing_world)))
   \<and> Call Stop \<notin> set (trace (snd (toggleTimeSlider story_slide True playing_world)))"
proof -
  have tr: "trace playing_world = []" by (simp add: playing_world_def initial_world_def)
  have "trace (snd (toggleTimeSlider story_slide embedded playing_world))
     = [ConsoleLog [AStr ''No timeSlider configuration found in choreography.'']]" for embedded
    using toggleTimeSlider_runs[OF playing_slider story_guard[OF story_fields(1)] story_extents,
        of embedded]
    by (simp add: tr prim_defs)
  then show ?thesis by simp
qed

text \<open>
  Claim C9. Let \<^verbatim>\<open>layersOn\<close> and \<^verbatim>\<open>layersOff\<close> be lists of names. The handler returns
  normally and changes the world in two places only. In the store, exactly the layers of
  the map whose title is in one of the lists are assigned: \<^verbatim>\<open>visible\<close> is set to
  \<^verbatim>\<open>true\<close> for the members of \<^verbatim>\<open>layersOn\<close>, then to \<^verbatim>\<open>false\<close> for the members of
  \<^verbatim>\<open>layersOff\<close> (so a title in both lists ends \<^verbatim>\<open>false\<close>); every other layer, and every
  other property of every layer, is as before. On the console there is one line for each
  assignment, in that order, and nothing else.
\<close>

theorem layerVisibility_changes_only_named_layers:
  assumes "get_prop slideData ''layerVisibility'' = Normal lv"
    and "get_prop lv ''layersOn'' = Normal (JArr (map JStr ons))"
    and "get_prop lv ''layersOff'' = Normal (JArr (map JStr offs))"
  shows "toggleLayerVisibility slideData embedded w =
           (Normal (),
            w\<lparr>heap := (\<lambda>r. if r \<in> set (mapLayers w) \<and> title (heap w r) \<in> set offs
                              then (heap w r)\<lparr>visible := False\<rparr>
                            else if r \<in> set (mapLayers w) \<and> title (heap w r) \<in> set ons
                              then (heap w r)\<lparr>visible := True\<rparr>
                            else heap w r),
              trace := trace w
                 @ map (visibility_line w True) (filter (\<lambda>r. title (heap w r) \<in> set ons) (mapLayers w))
                 @ map (visibility_line w False) (filter (\<lambda>r. title (heap w r) \<in> set offs) (mapLayers w))\<rparr>)"
proof -
  let ?w1 = "w\<lparr>heap := pass_heap ons True (mapLayers w) (heap w),
        trace := trace w @ map (visibility_line w True)
                             (filter (\<lambda>r. title (heap w r) \<in> set ons) (mapLayers w))\<rparr>"
  have t1: "title (heap ?w1 r) = title (heap w r)" for r by simp
  have l: "visibility_line ?w1 False = visibility_line w False"
    by (rule visibility_line_cong) simp
  have h: "pass_heap offs False (mapLayers w) (pass_heap ons True (mapLayers w) (heap w))
           = (\<lambda>r. if r \<in> set (mapLayers w) \<and> title (heap w r) \<in> set offs
                              then (heap w r)\<lparr>visible := False\<rparr>
                            else if r \<in> set (mapLayers w) \<and> title (heap w r) \<in> set ons
                              then (heap w r)\<lparr>visible := True\<rparr>
                            else heap w r)"
    by (auto simp: pass_heap_def fun_eq_iff)
  have "toggleLayerVisibility slideData embedded w
          = setLayerVisibility (JArr (map JStr offs)) False ?w1"
    using assms by (simp add: toggleLayerVisibility_def and_then_def setLayerVisibility_names)
  also have "\<dots> = (Normal (),
      ?w1\<lparr>heap := pass_heap offs False (mapLayers ?w1) (heap ?w1),
        trace := trace ?w1 @ map (visibility_line ?w1 False)
                             (filter (\<lambda>r. title (heap ?w1 r) \<in> set offs) (mapLayers ?w1))\<rparr>)"
    by (rule setLayerVisibility_names)
  also have "\<dots> = (Normal (),
            w\<lparr>heap := (\<lambda>r. if r \<in> set (mapLayers w) \<and> title (heap w r) \<in> set offs
                              then (heap w r)\<lparr>visible := False\<rparr>
                            else if r \<in> set (mapLayers w) \<and> title (heap w r) \<in> set ons
                              then (heap w r)\<lparr>visible := True\<rparr>
                            else heap w r),
              trace := trace w
                 @ map (visibility_line w True) (filter (\<lambda>r. title (heap w r) \<in> set ons) (mapLayers w))
                 @ map (visibility_line w False) (filter (\<lambda>r. title (heap w r) \<in> set offs) (mapLayers w))\<rparr>)"
    unfolding l by (simp add: h)
  finally show ?thesis .
qed

theorem layerVisibility_changes_only_named_layers_witness:
  "map (heap (snd (toggleLayerVisibility layers_slide False abc_world))) [0, 1, 2]
     = [named_layer ''A'' True, named_layer ''B'' False, named_layer ''C'' True]
   \<and> trace (snd (toggleLayerVisibility layers_slide False abc_world))
     = [visibility_line abc_world True 0, visibility_line abc_world False 1]"
proof -
  note r = layerVisibility_changes_only_named_layers[where slideData = layers_slide
      and lv = "JObj [(''layersOn'', JArr [JStr ''A'']), (''layersOff'', JArr [JStr ''B''])]"
      and ons = "[''A'']" and offs = "[''B'']" and w = abc_world and embedded = False,
      OF layers_fields]
  show ?thesis
    by (simp only: r snd_conv) (simp add: abc_fields named_layer_def)
qed





end
